theory Spec2Isabelle
  imports Main "HOL-Library.AList"
begin

section \<open>The diagram magics of diagmagic.py\<close>

text \<open>
  The module is Python 2 code (it imports \<^verbatim>\<open>imp\<close> and \<^verbatim>\<open>pipes\<close>, and writes an
  encoded byte string to a file opened in text mode). It keeps its configuration in
  module globals, stages the cell text in a temporary directory, runs external
  executables and publishes the bytes of the file they leave behind.

  The embedding threads one record, \<open>world\<close>, through every function: the module
  globals, \<^verbatim>\<open>sys.argv\<close>, the file system, the error stream, the display channel of
  the host and the host's registry of magics. An exception is a value of type \<open>exn\<close>;
  a function that may raise returns \<open>(exn + 'a) \<times> world\<close>, since the state changes made
  before a raise stay in place. The external world (which executables exist and what
  they do to the file system, which names \<^verbatim>\<open>tempfile\<close> draws) is the parameter \<open>env\<close>.
\<close>

subsection \<open>Python values\<close>

text \<open>
  In Python 2 \<^verbatim>\<open>IOError\<close> and \<^verbatim>\<open>OSError\<close> are different classes: a handler for
  \<^verbatim>\<open>OSError\<close> does not catch the \<^verbatim>\<open>IOError\<close> that \<^verbatim>\<open>io.open\<close> raises for a missing file.
\<close>

datatype exn =
    OSError
  | IOError
  | ValueError
  | TypeError
  | UnboundLocalError
  | CalledProcessError
  | KeyboardInterrupt

type_synonym bytes = string

text \<open>\<^verbatim>\<open>str.lower()\<close> on a byte string: the 26 ASCII capitals are mapped, nothing else.\<close>

definition lower_char :: "char \<Rightarrow> char" where
  "lower_char c =
     (case map_of (zip ''ABCDEFGHIJKLMNOPQRSTUVWXYZ'' ''abcdefghijklmnopqrstuvwxyz'') c of
        Some l \<Rightarrow> l
      | None \<Rightarrow> c)"

definition lower :: "string \<Rightarrow> string" where
  "lower s = map lower_char s"

text \<open>\<^verbatim>\<open>str(n)\<close> of an integer: its decimal digits, with a minus sign when negative.\<close>

definition digit_char :: "nat \<Rightarrow> char" where
  "digit_char n = ''0123456789'' ! n"

function str_nat :: "nat \<Rightarrow> string" where
  "str_nat n = (if n < 10 then [digit_char n] else str_nat (n div 10) @ [digit_char (n mod 10)])"
  by pat_completeness auto
termination
  by (relation "measure id") auto

declare str_nat.simps [simp del]

definition str_int :: "int \<Rightarrow> string" where
  "str_int i = (if i < 0 then CHR ''-'' # str_nat (nat (- i)) else str_nat (nat i))"

text \<open>\<^verbatim>\<open>s.find(c)\<close>: the index of the first occurrence, or \<open>-1\<close> when there is none.\<close>

definition py_find :: "string \<Rightarrow> char \<Rightarrow> int" where
  "py_find s c = (if c \<in> set s then int (length (takeWhile (\<lambda>x. x \<noteq> c) s)) else - 1)"

text \<open>A slice bound: a negative index counts from the end and is clamped at 0.\<close>

definition py_bound :: "string \<Rightarrow> int \<Rightarrow> nat" where
  "py_bound s i = nat (if i < 0 then max 0 (int (length s) + i) else i)"

definition py_slice_to :: "string \<Rightarrow> int \<Rightarrow> string" where
  "py_slice_to s i = take (py_bound s i) s"

definition py_slice_from :: "string \<Rightarrow> int \<Rightarrow> string" where
  "py_slice_from s i = drop (py_bound s i) s"

text \<open>
  \<^verbatim>\<open>int(s)\<close> on a string, base 10 (Python 2.6 and later): surrounding white space is
  ignored, one sign is allowed, and what remains must be one or more decimal digits.
\<close>

definition is_space :: "char \<Rightarrow> bool" where
  "is_space c = (c \<in> set [CHR '' '', CHR 0x09, CHR 0x0A, CHR 0x0B, CHR 0x0C, CHR 0x0D])"

definition strip :: "string \<Rightarrow> string" where
  "strip s = rev (dropWhile is_space (rev (dropWhile is_space s)))"

definition is_digit :: "char \<Rightarrow> bool" where
  "is_digit c = (c \<in> set ''0123456789'')"

definition digits_val :: "string \<Rightarrow> int" where
  "digits_val ds = foldl (\<lambda>a c. 10 * a + int ((of_char c :: nat) - 48)) 0 ds"

definition py_int :: "string \<Rightarrow> exn + int" where
  "py_int s =
     (let t = strip s;
          neg = (t \<noteq> [] \<and> hd t = CHR ''-'');
          ds = (if t \<noteq> [] \<and> (hd t = CHR ''-'' \<or> hd t = CHR ''+'') then tl t else t)
      in if ds \<noteq> [] \<and> list_all is_digit ds
         then Inr (if neg then - digits_val ds else digits_val ds)
         else Inl ValueError)"

subsection \<open>The file system\<close>

text \<open>
  A file system is an association list from absolute paths to nodes. The code builds
  every path by string concatenation (\<^verbatim>\<open>tmpdir + "/" + file\<close>,
  \<^verbatim>\<open>diag_name + '.' + format\<close>), and so does the model. The entries of a directory
  \<open>d\<close> are the paths \<open>d/n\<close> with \<open>n\<close> a non-empty name without a slash;
  \<^verbatim>\<open>os.listdir\<close> returns these names in the order of the list.
\<close>

datatype node = File bytes | Dir

type_synonym fsys = "(string \<times> node) list"

definition join :: "string \<Rightarrow> string \<Rightarrow> string" where
  "join d n = d @ ''/'' @ n"

definition valid_name :: "string \<Rightarrow> bool" where
  "valid_name n = (n \<noteq> [] \<and> CHR ''/'' \<notin> set n)"

definition child_name :: "string \<Rightarrow> string \<Rightarrow> string option" where
  "child_name d p =
     (let k = length d + 1; n = drop k p
      in if take k p = d @ ''/'' \<and> valid_name n then Some n else None)"

definition children :: "string \<Rightarrow> fsys \<Rightarrow> string list" where
  "children d f = remdups (List.map_filter (child_name d) (map fst f))"

text \<open>A path exists when it has a node or when something lies below it.\<close>

definition occupied :: "fsys \<Rightarrow> string \<Rightarrow> bool" where
  "occupied f p = (map_of f p \<noteq> None \<or> children p f \<noteq> [])"

definition os_listdir :: "string \<Rightarrow> fsys \<Rightarrow> exn + string list" where
  "os_listdir d f = (if map_of f d = Some Dir then Inr (children d f) else Inl OSError)"

text \<open>\<^verbatim>\<open>os.unlink\<close> removes a regular file; on a directory or a missing path it raises.\<close>

definition os_unlink :: "string \<Rightarrow> fsys \<Rightarrow> exn + fsys" where
  "os_unlink p f =
     (case map_of f p of
        Some (File b) \<Rightarrow> Inr (AList.delete p f)
      | Some Dir \<Rightarrow> Inl OSError
      | None \<Rightarrow> Inl OSError)"

text \<open>\<^verbatim>\<open>os.rmdir\<close> removes an empty directory and raises on anything else.\<close>

definition os_rmdir :: "string \<Rightarrow> fsys \<Rightarrow> exn + fsys" where
  "os_rmdir d f =
     (if map_of f d = Some Dir \<and> children d f = [] then Inr (AList.delete d f)
      else Inl OSError)"

text \<open>\<^verbatim>\<open>io.open(p, 'rb').read()\<close>: the bytes of a regular file, \<^verbatim>\<open>IOError\<close> otherwise.\<close>

definition io_open_read :: "string \<Rightarrow> fsys \<Rightarrow> exn + bytes" where
  "io_open_read p f =
     (case map_of f p of
        Some (File b) \<Rightarrow> Inr b
      | Some Dir \<Rightarrow> Inl IOError
      | None \<Rightarrow> Inl IOError)"

definition write_file :: "string \<Rightarrow> bytes \<Rightarrow> fsys \<Rightarrow> fsys" where
  "write_file p b f = AList.update p (File b) f"

subsection \<open>The environment\<close>

text \<open>
  \<^verbatim>\<open>subprocess.call(argv)\<close> either launches the executable, which runs, may change the
  file system and exits with a code, or raises. What happens for which argument
  vector is the environment's \<open>spawn\<close>. The names that \<^verbatim>\<open>tempfile\<close> draws are the
  environment's candidate lists: \<^verbatim>\<open>mkdtemp\<close> and \<^verbatim>\<open>mkstemp\<close> take the first candidate
  that does not exist yet and raise \<^verbatim>\<open>IOError\<close> when every candidate is taken.
\<close>

datatype call_result = Exited int | Raised exn

record env =
  spawn :: "string list \<Rightarrow> fsys \<Rightarrow> call_result \<times> fsys"
  tmpdir_candidates :: "string list"
  tmpfile_candidates :: "string list"

definition tempfile_mkdtemp :: "env \<Rightarrow> fsys \<Rightarrow> exn + string \<times> fsys" where
  "tempfile_mkdtemp env f =
     (case find (\<lambda>d. \<not> occupied f d) (tmpdir_candidates env) of
        None \<Rightarrow> Inl IOError
      | Some d \<Rightarrow> Inr (d, AList.update d Dir f))"

definition tempfile_mkstemp :: "env \<Rightarrow> string \<Rightarrow> fsys \<Rightarrow> exn + string \<times> fsys" where
  "tempfile_mkstemp env d f =
     (case find (\<lambda>n. valid_name n \<and> map_of f (join d n) = None) (tmpfile_candidates env) of
        None \<Rightarrow> Inl IOError
      | Some n \<Rightarrow> Inr (join d n, write_file (join d n) [] f))"

subsection \<open>The state\<close>

text \<open>
  The events of a call that a claim speaks about are logged in \<open>trace\<close>: the temporary
  directory made, every \<^verbatim>\<open>subprocess.call\<close> with its argument vector, and every
  attempt to open the artifact. No function of the model reads the log.
\<close>

datatype event = Mkdtemp string | Call "string list" | Open string

record world =
  draw_mode :: string
  publish_mode :: string
  canvas_size :: "int \<times> int"
  inkscape_available_flag :: "bool option"
  loaded :: bool
  sys_argv :: "string list"
  fs :: fsys
  stderr :: "string list"
  display :: "(string \<times> (string \<times> bytes) list) list"
  ip_registry :: "string list"
  trace :: "event list"

text \<open>The module globals as the module body sets them (lines 61 to 66 and 229).\<close>

definition init_world :: "fsys \<Rightarrow> string list \<Rightarrow> world" where
  "init_world f argv =
     \<lparr> draw_mode = ''SVG'', publish_mode = ''SVG'', canvas_size = (1000, 500),
       inkscape_available_flag = None, loaded = False, sys_argv = argv, fs = f,
       stderr = [], display = [], ip_registry = [], trace = [] \<rparr>"

definition inkscape :: string where
  "inkscape = ''/Applications/Inkscape.app/Contents/Resources/bin/inkscape''"

subsection \<open>The Process Runner and the Converter\<close>

text \<open>
  \<^verbatim>\<open>subprocess.call(args)\<close>: the exit code of a process that ran, or the exception of
  a launch that failed. The console-window hint that \<^verbatim>\<open>run_command\<close> passes on
  Windows changes neither.
\<close>

definition subprocess_call :: "env \<Rightarrow> string list \<Rightarrow> world \<Rightarrow> (exn + int) \<times> world" where
  "subprocess_call env args w =
     (case spawn env args (fs w) of
        (r, f) \<Rightarrow>
          (case r of Exited rc \<Rightarrow> Inr rc | Raised e \<Rightarrow> Inl e,
           w\<lparr>fs := f, trace := trace w @ [Call args]\<rparr>))"

text \<open>
  \<^verbatim>\<open>run_command\<close> (lines 82 to 101). The handler for \<^verbatim>\<open>CalledProcessError\<close> prints
  \<^verbatim>\<open>e.output\<close> and then formats a string with two \<^verbatim>\<open>%s\<close> from one argument, which
  raises \<^verbatim>\<open>TypeError\<close>; \<^verbatim>\<open>subprocess.call\<close> itself never raises that class. The
  handler for \<^verbatim>\<open>OSError\<close> prints one line and falls through to \<^verbatim>\<open>return False\<close>.
  Any other exception passes through.
\<close>

definition run_command :: "env \<Rightarrow> string list \<Rightarrow> world \<Rightarrow> (exn + bool) \<times> world" where
  "run_command env args w =
     (case subprocess_call env args w of
        (Inr rc, w1) \<Rightarrow> (Inr True, w1)
      | (Inl e, w1) \<Rightarrow>
          if e = CalledProcessError
          then (Inl TypeError, w1\<lparr>stderr := stderr w1 @ [''None'']\<rparr>)
          else if e = OSError
          then (Inr False, w1\<lparr>stderr := stderr w1 @ [''Exception OSError'']\<rparr>)
          else (Inl e, w1))"

text \<open>\<^verbatim>\<open>inkscape_available\<close> (lines 103 to 107): probe once, then answer from the global.\<close>

definition inkscape_available :: "env \<Rightarrow> world \<Rightarrow> (exn + bool) \<times> world" where
  "inkscape_available env w =
     (case inkscape_available_flag w of
        None \<Rightarrow>
          (case run_command env [inkscape, ''--export-png''] w of
             (Inl e, w1) \<Rightarrow> (Inl e, w1)
           | (Inr b, w1) \<Rightarrow> (Inr b, w1\<lparr>inkscape_available_flag := Some b\<rparr>))
      | Some b \<Rightarrow> (Inr b, w))"

text \<open>\<^verbatim>\<open>svg2png\<close> (lines 109 to 111): the result of \<^verbatim>\<open>run_command\<close> is dropped.\<close>

definition svg2png :: "env \<Rightarrow> string \<Rightarrow> world \<Rightarrow> (exn + unit) \<times> world" where
  "svg2png env filename w =
     (case run_command env [inkscape, filename @ ''.svg'', ''--export-png='' @ filename @ ''.png''] w of
        (Inl e, w1) \<Rightarrow> (Inl e, w1)
      | (Inr b, w1) \<Rightarrow> (Inr (), w1))"

subsection \<open>The render pipeline\<close>

text \<open>
  The argument vector of line 135. The cell text is kept as its UTF-8 bytes, so that
  appending the newline and encoding is appending the byte \<open>0x0A\<close>.
\<close>

definition tool_argv :: "string \<Rightarrow> string \<Rightarrow> int \<times> int \<Rightarrow> string \<Rightarrow> string \<Rightarrow> string list" where
  "tool_argv command format sz draw_name diag_name =
     [command, ''-T'', format, ''--size'', str_int (fst sz) @ ''x'' @ str_int (snd sz),
      ''-o'', draw_name, diag_name]"

text \<open>
  The body of the \<^verbatim>\<open>try\<close> (lines 125 to 157). Besides its result it returns the
  binding of \<^verbatim>\<open>tmpdir\<close>, which the \<^verbatim>\<open>finally\<close> block reads: none when \<^verbatim>\<open>mkdtemp\<close>
  raised. The dialect tool is run by \<^verbatim>\<open>subprocess.call(sys.argv)\<close> directly (line 146),
  and \<^verbatim>\<open>sys.argv\<close> is put back on the line after it.
\<close>

definition diag_try ::
  "env \<Rightarrow> string \<Rightarrow> string \<Rightarrow> world \<Rightarrow> (exn + bytes) \<times> string option \<times> world" where
  "diag_try env code command w =
     (case tempfile_mkdtemp env (fs w) of
        Inl e \<Rightarrow> (Inl e, None, w)
      | Inr (tmpdir, f1) \<Rightarrow>
          (let w1 = w\<lparr>fs := f1, trace := trace w @ [Mkdtemp tmpdir]\<rparr> in
           case tempfile_mkstemp env tmpdir (fs w1) of
             Inl e \<Rightarrow> (Inl e, Some tmpdir, w1)
           | Inr (diag_name, f2) \<Rightarrow>
               (let w2 = w1\<lparr>fs := write_file diag_name code f2\<rparr>;
                    format = lower (draw_mode w2);
                    draw_name = diag_name @ ''.'' @ format;
                    saved_argv = sys_argv w2;
                    w3 = w2\<lparr>sys_argv :=
                            tool_argv command format (canvas_size w2) draw_name diag_name\<rparr>
                in case subprocess_call env (sys_argv w3) w3 of
                     (Inl e, w4) \<Rightarrow> (Inl e, Some tmpdir, w4)
                   | (Inr return_code, w4) \<Rightarrow>
                       (let w5 = w4\<lparr>sys_argv := saved_argv\<rparr> in
                        case (if draw_mode w5 = ''SVG'' \<and> publish_mode w5 = ''PNG''
                              then svg2png env diag_name w5 else (Inr (), w5)) of
                          (Inl e, w6) \<Rightarrow> (Inl e, Some tmpdir, w6)
                        | (Inr u, w6) \<Rightarrow>
                            (let file_name = diag_name @ ''.'' @ lower (publish_mode w6);
                                 w7 = w6\<lparr>trace := trace w6 @ [Open file_name]\<rparr>
                             in case io_open_read file_name (fs w7) of
                                  Inl e \<Rightarrow> (Inl e, Some tmpdir, w7)
                                | Inr data \<Rightarrow> (Inr data, Some tmpdir, w7))))))"

text \<open>The loop of the \<^verbatim>\<open>finally\<close> block: it stops at the first \<^verbatim>\<open>os.unlink\<close> that raises.\<close>

fun unlink_all :: "string \<Rightarrow> string list \<Rightarrow> fsys \<Rightarrow> exn option \<times> fsys" where
  "unlink_all d [] f = (None, f)"
| "unlink_all d (n # ns) f =
     (case os_unlink (join d n) f of
        Inl e \<Rightarrow> (Some e, f)
      | Inr f1 \<Rightarrow> unlink_all d ns f1)"

text \<open>
  The \<^verbatim>\<open>finally\<close> block (lines 159 to 162). With \<^verbatim>\<open>tmpdir\<close> unbound its first line
  raises \<^verbatim>\<open>UnboundLocalError\<close>.
\<close>

definition diag_finally :: "string option \<Rightarrow> world \<Rightarrow> exn option \<times> world" where
  "diag_finally tmpdir w =
     (case tmpdir of
        None \<Rightarrow> (Some UnboundLocalError, w)
      | Some d \<Rightarrow>
          (case os_listdir d (fs w) of
             Inl e \<Rightarrow> (Some e, w)
           | Inr names \<Rightarrow>
               (case unlink_all d names (fs w) of
                  (Some e, f1) \<Rightarrow> (Some e, w\<lparr>fs := f1\<rparr>)
                | (None, f1) \<Rightarrow>
                    (case os_rmdir d f1 of
                       Inl e \<Rightarrow> (Some e, w\<lparr>fs := f1\<rparr>)
                     | Inr f2 \<Rightarrow> (None, w\<lparr>fs := f2\<rparr>)))))"

definition publish_display_data :: "string \<Rightarrow> (string \<times> bytes) list \<Rightarrow> world \<Rightarrow> world" where
  "publish_display_data source data w = w\<lparr>display := display w @ [(source, data)]\<rparr>"

text \<open>
  The mode test before the \<^verbatim>\<open>try\<close> (lines 117 to 121): the assignment to the global
  \<^verbatim>\<open>_draw_mode\<close> is not undone anywhere in \<^verbatim>\<open>diag\<close>.
\<close>

definition diag_mode :: "env \<Rightarrow> world \<Rightarrow> (exn + unit) \<times> world" where
  "diag_mode env w =
     (if publish_mode w = ''PNG''
      then (case inkscape_available env w of
              (Inl e, w1) \<Rightarrow> (Inl e, w1)
            | (Inr av, w1) \<Rightarrow> (Inr (), if av then w1\<lparr>draw_mode := ''SVG''\<rparr> else w1))
      else (Inr (), w))"

text \<open>
  \<^verbatim>\<open>diag\<close> (lines 113 to 173). An exception raised in the \<^verbatim>\<open>finally\<close> block replaces
  the one that was on its way out of the \<^verbatim>\<open>try\<close>.
\<close>

definition diag :: "env \<Rightarrow> string \<Rightarrow> string \<Rightarrow> string \<Rightarrow> world \<Rightarrow> (exn + unit) \<times> world" where
  "diag env line cell command w =
     (let code = cell @ [CHR 0x0A] in
      case diag_mode env w of
        (Inl e, w1) \<Rightarrow> (Inl e, w1)
      | (Inr u, w1) \<Rightarrow>
          (case diag_try env code command w1 of
             (r, tmpdir, w2) \<Rightarrow>
               (case diag_finally tmpdir w2 of
                  (Some e, w3) \<Rightarrow> (Inl e, w3)
                | (None, w3) \<Rightarrow>
                    (case r of
                       Inl e \<Rightarrow> (Inl e, w3)
                     | Inr data \<Rightarrow>
                         (Inr (),
                          if publish_mode w3 = ''SVG''
                          then publish_display_data ''IPython.core.displaypub.publish_svg''
                                 [(''image/svg+xml'', data)] w3
                          else publish_display_data ''IPython.core.displaypub.publish_png''
                                 [(''image/png'', data)] w3)))))"

subsection \<open>The magics and the extension hook\<close>

definition actdiag :: "env \<Rightarrow> string \<Rightarrow> string \<Rightarrow> world \<Rightarrow> (exn + unit) \<times> world" where
  "actdiag env line cell w = diag env line cell ''actdiag'' w"

definition blockdiag :: "env \<Rightarrow> string \<Rightarrow> string \<Rightarrow> world \<Rightarrow> (exn + unit) \<times> world" where
  "blockdiag env line cell w = diag env line cell ''blockdiag'' w"

definition nwdiag :: "env \<Rightarrow> string \<Rightarrow> string \<Rightarrow> world \<Rightarrow> (exn + unit) \<times> world" where
  "nwdiag env line cell w = diag env line cell ''nwdiag'' w"

definition seqdiag :: "env \<Rightarrow> string \<Rightarrow> string \<Rightarrow> world \<Rightarrow> (exn + unit) \<times> world" where
  "seqdiag env line cell w = diag env line cell ''seqdiag'' w"

definition rackdiag :: "env \<Rightarrow> string \<Rightarrow> string \<Rightarrow> world \<Rightarrow> (exn + unit) \<times> world" where
  "rackdiag env line cell w = diag env line cell ''rackdiag'' w"

definition packetdiag :: "env \<Rightarrow> string \<Rightarrow> string \<Rightarrow> world \<Rightarrow> (exn + unit) \<times> world" where
  "packetdiag env line cell w = diag env line cell ''packetdiag'' w"

text \<open>
  \<^verbatim>\<open>setdiagsize\<close> (line 215): both slices use \<^verbatim>\<open>line.find(',')\<close> as it comes, also
  when it is \<open>-1\<close>; the tuple is built left to right and assigned only when both
  \<^verbatim>\<open>int\<close> calls returned.
\<close>

definition setdiagsize :: "string \<Rightarrow> world \<Rightarrow> (exn + unit) \<times> world" where
  "setdiagsize line w =
     (case py_int (py_slice_to line (py_find line (CHR '',''))) of
        Inl e \<Rightarrow> (Inl e, w)
      | Inr a \<Rightarrow>
          (case py_int (py_slice_from line (py_find line (CHR '','') + 1)) of
             Inl e \<Rightarrow> (Inl e, w)
           | Inr b \<Rightarrow> (Inr (), w\<lparr>canvas_size := (a, b)\<rparr>)))"

definition setdiagsvg :: "string \<Rightarrow> world \<Rightarrow> (exn + unit) \<times> world" where
  "setdiagsvg line w = (Inr (), w\<lparr>publish_mode := ''SVG'', draw_mode := ''SVG''\<rparr>)"

definition setdiagpng :: "string \<Rightarrow> world \<Rightarrow> (exn + unit) \<times> world" where
  "setdiagpng line w = (Inr (), w\<lparr>publish_mode := ''PNG'', draw_mode := ''PNG''\<rparr>)"

text \<open>
  \<^verbatim>\<open>load_ipython_extension\<close> (lines 231 to 236). The host's \<^verbatim>\<open>register_magics\<close> is
  recorded as one more entry, the class name, in the host's registry.
\<close>

definition register_magics :: "string \<Rightarrow> world \<Rightarrow> world" where
  "register_magics cls w = w\<lparr>ip_registry := ip_registry w @ [cls]\<rparr>"

definition load_ipython_extension :: "world \<Rightarrow> world" where
  "load_ipython_extension w =
     (if \<not> loaded w then (register_magics ''BlockdiagMagics'' w)\<lparr>loaded := True\<rparr> else w)"

subsection \<open>Sessions\<close>

text \<open>
  What a notebook user can do to the module, one operation per cell. The host shows
  an exception that leaves a magic and goes on with the next cell; the module globals
  stay as the failed call left them.
\<close>

datatype magic =
    Actdiag string string
  | Blockdiag string string
  | Nwdiag string string
  | Seqdiag string string
  | Rackdiag string string
  | Packetdiag string string
  | Setdiagsize string
  | Setdiagsvg string
  | Setdiagpng string
  | Load_ext

fun exec_magic :: "env \<Rightarrow> magic \<Rightarrow> world \<Rightarrow> (exn + unit) \<times> world" where
  "exec_magic env (Actdiag line cell) w = actdiag env line cell w"
| "exec_magic env (Blockdiag line cell) w = blockdiag env line cell w"
| "exec_magic env (Nwdiag line cell) w = nwdiag env line cell w"
| "exec_magic env (Seqdiag line cell) w = seqdiag env line cell w"
| "exec_magic env (Rackdiag line cell) w = rackdiag env line cell w"
| "exec_magic env (Packetdiag line cell) w = packetdiag env line cell w"
| "exec_magic env (Setdiagsize line) w = setdiagsize line w"
| "exec_magic env (Setdiagsvg line) w = setdiagsvg line w"
| "exec_magic env (Setdiagpng line) w = setdiagpng line w"
| "exec_magic env Load_ext w = (Inr (), load_ipython_extension w)"

fun run_session :: "env \<Rightarrow> magic list \<Rightarrow> world \<Rightarrow> world" where
  "run_session env [] w = w"
| "run_session env (m # ms) w = run_session env ms (snd (exec_magic env m w))"

subsection \<open>Notions used in the statements\<close>

text \<open>
  A temporary directory is tidy when it is a directory and everything in it is a
  regular file.
\<close>

definition is_file :: "fsys \<Rightarrow> string \<Rightarrow> bool" where
  "is_file f p = (case map_of f p of Some (File b) \<Rightarrow> True | Some Dir \<Rightarrow> False | None \<Rightarrow> False)"

definition tidy :: "string \<Rightarrow> fsys \<Rightarrow> bool" where
  "tidy d f = (map_of f d = Some Dir \<and> list_all (\<lambda>n. is_file f (join d n)) (children d f))"

text \<open>The directories made, and the files opened, according to a list of events.\<close>

fun made_dirs :: "event list \<Rightarrow> string list" where
  "made_dirs [] = []"
| "made_dirs (Mkdtemp d # es) = d # made_dirs es"
| "made_dirs (Call a # es) = made_dirs es"
| "made_dirs (Open p # es) = made_dirs es"

fun opened :: "event list \<Rightarrow> string list" where
  "opened [] = []"
| "opened (Mkdtemp d # es) = opened es"
| "opened (Call a # es) = opened es"
| "opened (Open p # es) = p # opened es"

text \<open>
  The three combinations of the mode globals and the probe result that a session can
  reach: draw format SVG with publish format PNG occurs only after a probe that
  returned true.
\<close>

definition mode_inv :: "world \<Rightarrow> bool" where
  "mode_inv w =
     (draw_mode w = ''SVG'' \<and> publish_mode w = ''SVG'' \<or>
      draw_mode w = ''PNG'' \<and> publish_mode w = ''PNG'' \<or>
      draw_mode w = ''SVG'' \<and> publish_mode w = ''PNG'' \<and>
        inkscape_available_flag w = Some True)"

text \<open>The outcomes of \<^verbatim>\<open>subprocess.call\<close> that \<^verbatim>\<open>run_command\<close> turns into a boolean.\<close>

fun ran_or_oserror :: "call_result \<Rightarrow> bool" where
  "ran_or_oserror (Exited rc) = True"
| "ran_or_oserror (Raised e) = (e = OSError)"

fun no_setdiagpng :: "magic list \<Rightarrow> bool" where
  "no_setdiagpng [] = True"
| "no_setdiagpng (Setdiagpng line # ms) = False"
| "no_setdiagpng (m # ms) = no_setdiagpng ms"

text \<open>The command line of the dialect tool for input file \<open>p\<close> (line 135).\<close>

definition diag_argv :: "string \<Rightarrow> world \<Rightarrow> string \<Rightarrow> string list" where
  "diag_argv cmd w p =
     tool_argv cmd (lower (draw_mode w)) (canvas_size w) (p @ ''.'' @ lower (draw_mode w)) p"

text \<open>Sample environments: no executable installed; executables that run and do nothing.\<close>

definition env_missing :: env where
  "env_missing =
     \<lparr> spawn = (\<lambda>a f. (Raised OSError, f)),
       tmpdir_candidates = [''/tmp/tmpd''], tmpfile_candidates = [''tmpf''] \<rparr>"

definition env_idle :: env where
  "env_idle =
     \<lparr> spawn = (\<lambda>a f. (Exited 1, f)),
       tmpdir_candidates = [''/tmp/tmpd''], tmpfile_candidates = [''tmpf''] \<rparr>"

definition world0 :: world where
  "world0 = init_world [] [''ipython'']"

text \<open>The world after \<^verbatim>\<open>%setdiagpng\<close> on a fresh module.\<close>

definition world_png :: world where
  "world_png = snd (setdiagpng [] world0)"

text \<open>The six dialect magics, each with the executable it names.\<close>

definition dialect_commands ::
  "((env \<Rightarrow> string \<Rightarrow> string \<Rightarrow> world \<Rightarrow> (exn + unit) \<times> world) \<times> string) list" where
  "dialect_commands =
     [(actdiag, ''actdiag''), (blockdiag, ''blockdiag''), (nwdiag, ''nwdiag''),
      (seqdiag, ''seqdiag''), (rackdiag, ''rackdiag''), (packetdiag, ''packetdiag'')]"


text \<open>
  More sample environments. In the first, a dialect tool writes its output file,
  an SVG document or natively rendered PNG bytes as \<^verbatim>\<open>-T\<close> says, and the converter
  writes other bytes to the path after \<^verbatim>\<open>--export-png=\<close>. The second has the same
  dialect tools and no converter. In the third only the converter is installed. In
  the fourth a dialect tool leaves a sub-directory next to its output file.
\<close>

definition env_distinct :: env where
  "env_distinct =
     \<lparr> spawn = (\<lambda>a f.
         if hd a = inkscape
         then (Exited 0,
               if length a = 3
               then write_file (drop (length ''--export-png='') (a ! 2)) ''PNG-converted'' f
               else f)
         else (Exited 0,
               write_file (a ! 6) (if a ! 2 = ''svg'' then ''<svg/>'' else ''PNG-native'') f)),
       tmpdir_candidates = [''/tmp/tmpd''], tmpfile_candidates = [''tmpf''] \<rparr>"

definition env_native :: env where
  "env_native =
     \<lparr> spawn = (\<lambda>a f.
         if hd a = inkscape
         then (Raised OSError, f)
         else (Exited 0,
               write_file (a ! 6) (if a ! 2 = ''svg'' then ''<svg/>'' else ''PNG-native'') f)),
       tmpdir_candidates = [''/tmp/tmpd''], tmpfile_candidates = [''tmpf''] \<rparr>"

definition env_only_inkscape :: env where
  "env_only_inkscape =
     \<lparr> spawn = (\<lambda>a f. if hd a = inkscape then (Exited 0, f) else (Raised OSError, f)),
       tmpdir_candidates = [''/tmp/tmpd''], tmpfile_candidates = [''tmpf''] \<rparr>"


section \<open>Properties\<close>

subsection \<open>Paths and the cleanup loop\<close>

lemma join_neq_dir: "join d n \<noteq> d"
  by (simp add: join_def)

lemma join_inject: "join d n = join d m \<longleftrightarrow> n = m"
  by (simp add: join_def)

lemma child_name_join: "valid_name n \<Longrightarrow> child_name d (join d n) = Some n"
  by (simp add: child_name_def join_def)

lemma child_name_SomeD: "child_name d p = Some n \<Longrightarrow> p = join d n \<and> valid_name n"
  by (auto simp: child_name_def join_def Let_def split: if_splits)
     (metis append_take_drop_id append.assoc append_Cons append_Nil)

lemma set_children: "set (children d f) = {n. valid_name n \<and> map_of f (join d n) \<noteq> None}"
proof -
  have "set (children d f) = {n. \<exists>p \<in> fst ` set f. child_name d p = Some n}"
    by (force simp: children_def List.map_filter_def)
  moreover have "(\<exists>p \<in> fst ` set f. child_name d p = Some n) \<longleftrightarrow>
      valid_name n \<and> join d n \<in> fst ` set f" for n
  proof
    assume "\<exists>p \<in> fst ` set f. child_name d p = Some n"
    then obtain p where "p \<in> fst ` set f" "child_name d p = Some n" ..
    then show "valid_name n \<and> join d n \<in> fst ` set f"
      using child_name_SomeD [of d p n] by simp
  next
    assume "valid_name n \<and> join d n \<in> fst ` set f"
    then show "\<exists>p \<in> fst ` set f. child_name d p = Some n"
      using child_name_join [of n d] by (intro bexI [of _ "join d n"]) simp_all
  qed
  moreover have "join d n \<in> fst ` set f \<longleftrightarrow> map_of f (join d n) \<noteq> None" for n
    by (simp add: map_of_eq_None_iff)
  ultimately show ?thesis by simp
qed

lemma children_Nil_iff: "children d f = [] \<longleftrightarrow> (\<forall>n. valid_name n \<longrightarrow> map_of f (join d n) = None)"
proof -
  have "children d f = [] \<longleftrightarrow> set (children d f) = {}" by simp
  also have "\<dots> \<longleftrightarrow> (\<forall>n. valid_name n \<longrightarrow> map_of f (join d n) = None)"
    unfolding set_children by auto
  finally show ?thesis .
qed

lemma find_SomeD: "find P xs = Some x \<Longrightarrow> P x"
  by (induction xs) (auto split: if_splits)

lemma is_file_iff: "is_file f p \<longleftrightarrow> (\<exists>b. map_of f p = Some (File b))"
  by (auto simp: is_file_def split: option.splits node.splits)

lemma tidy_iff:
  "tidy d f \<longleftrightarrow> map_of f d = Some Dir \<and>
     (\<forall>n. valid_name n \<longrightarrow> map_of f (join d n) = None \<or> is_file f (join d n))"
  by (auto simp: tidy_def list_all_iff set_children)

lemma dir_neq_join: "d \<noteq> join d n"
  by (simp add: join_def)

lemma unlink_all_files:
  "distinct ns \<Longrightarrow> \<forall>n \<in> set ns. is_file f (join d n) \<Longrightarrow>
   \<exists>f1. unlink_all d ns f = (None, f1) \<and>
        (\<forall>p. map_of f1 p = (if p \<in> join d ` set ns then None else map_of f p))"
proof (induction ns arbitrary: f)
  case Nil
  then show ?case by simp
next
  case (Cons n ns)
  from Cons.prems obtain b where b: "map_of f (join d n) = Some (File b)"
    by (auto simp: is_file_iff)
  let ?g = "AList.delete (join d n) f"
  have un: "os_unlink (join d n) f = Inr ?g"
    by (simp add: os_unlink_def b)
  have "\<forall>m \<in> set ns. is_file ?g (join d m)"
    using Cons.prems by (auto simp: is_file_iff delete_conv' join_inject)
  with Cons.IH [of ?g] Cons.prems obtain f1 where
    f1: "unlink_all d ns ?g = (None, f1)"
        "\<And>p. map_of f1 p = (if p \<in> join d ` set ns then None else map_of ?g p)"
    by auto
  have "\<forall>p. map_of f1 p = (if p \<in> join d ` set (n # ns) then None else map_of f p)"
    by (simp add: f1(2) delete_conv')
  then show ?case
    using f1(1) un by simp
qed

lemma diag_finally_tidy:
  assumes "tidy d (fs w)"
  shows "\<exists>f1. diag_finally (Some d) w = (None, w\<lparr>fs := f1\<rparr>) \<and> \<not> occupied f1 d"
proof -
  from assms have dir: "map_of (fs w) d = Some Dir"
    and files: "\<forall>n \<in> set (children d (fs w)). is_file (fs w) (join d n)"
    by (auto simp: tidy_def list_all_iff)
  have "distinct (children d (fs w))"
    by (simp add: children_def)
  from unlink_all_files [OF this files] obtain f1 where
    f1: "unlink_all d (children d (fs w)) (fs w) = (None, f1)"
        "\<And>p. map_of f1 p =
           (if p \<in> join d ` set (children d (fs w)) then None else map_of (fs w) p)"
    by blast
  have d1: "map_of f1 d = Some Dir"
    using dir by (simp add: f1(2) image_iff dir_neq_join)
  have c0: "map_of f1 (join d n) = None" if "valid_name n" for n
  proof (cases "map_of (fs w) (join d n) = None")
    case True
    then show ?thesis by (simp add: f1(2))
  next
    case False
    with that have "n \<in> set (children d (fs w))" by (simp add: set_children)
    then show ?thesis by (simp add: f1(2))
  qed
  then have c1: "children d f1 = []"
    by (simp add: children_Nil_iff)
  have rm: "os_rmdir d f1 = Inr (AList.delete d f1)"
    by (simp add: os_rmdir_def d1 c1)
  have "children d (AList.delete d f1) = []"
    by (simp add: children_Nil_iff delete_conv' join_neq_dir c0)
  then have "\<not> occupied (AList.delete d f1) d"
    by (simp add: occupied_def delete_conv')
  moreover have "diag_finally (Some d) w = (None, w\<lparr>fs := AList.delete d f1\<rparr>)"
    by (simp add: diag_finally_def os_listdir_def dir f1(1) rm)
  ultimately show ?thesis by blast
qed


lemma mkdtemp_tidy:
  assumes "tempfile_mkdtemp env f = Inr (d, f1)"
  shows "tidy d f1" and "\<not> occupied f d" and "f1 = AList.update d Dir f"
proof -
  from assms obtain "find (\<lambda>d. \<not> occupied f d) (tmpdir_candidates env) = Some d"
    and f1: "f1 = AList.update d Dir f"
    by (auto simp: tempfile_mkdtemp_def split: option.splits)
  then show free: "\<not> occupied f d" by (auto dest: find_SomeD)
  show "f1 = AList.update d Dir f" by (rule f1)
  from free have "\<forall>n. valid_name n \<longrightarrow> map_of f (join d n) = None"
    by (simp add: occupied_def children_Nil_iff)
  then show "tidy d f1"
    by (simp add: tidy_iff f1 update_conv' join_neq_dir)
qed

lemma write_file_tidy:
  "tidy d f \<Longrightarrow> valid_name n \<Longrightarrow> tidy d (write_file (join d n) b f)"
  by (simp add: tidy_iff write_file_def update_conv' join_neq_dir dir_neq_join is_file_iff)

lemma mkstemp_tidy:
  assumes "tempfile_mkstemp env d f = Inr (p, f1)" and "tidy d f"
  shows "\<exists>n. valid_name n \<and> p = join d n \<and> f1 = write_file p [] f \<and> tidy d f1"
proof -
  from assms(1) obtain n where
    "find (\<lambda>n. valid_name n \<and> map_of f (join d n) = None) (tmpfile_candidates env) = Some n"
    and eq: "p = join d n" "f1 = write_file (join d n) [] f"
    by (auto simp: tempfile_mkstemp_def split: option.splits)
  then have "valid_name n" by (auto dest: find_SomeD)
  with eq assms(2) show ?thesis by (auto intro: write_file_tidy)
qed

lemma subprocess_call_eq:
  "spawn env a (fs w) = (r, f) \<Longrightarrow>
   subprocess_call env a w =
     (case r of Exited rc \<Rightarrow> Inr rc | Raised e \<Rightarrow> Inl e,
      w\<lparr>fs := f, trace := trace w @ [Call a]\<rparr>)"
  by (simp add: subprocess_call_def)

lemma run_command_eq:
  "spawn env a (fs w) = (r, f) \<Longrightarrow>
   run_command env a w =
     (case r of
        Exited rc \<Rightarrow> (Inr True, w\<lparr>fs := f, trace := trace w @ [Call a]\<rparr>)
      | Raised e \<Rightarrow>
          if e = CalledProcessError
          then (Inl TypeError,
                w\<lparr>fs := f, trace := trace w @ [Call a], stderr := stderr w @ [''None'']\<rparr>)
          else if e = OSError
          then (Inr False,
                w\<lparr>fs := f, trace := trace w @ [Call a],
                  stderr := stderr w @ [''Exception OSError'']\<rparr>)
          else (Inl e, w\<lparr>fs := f, trace := trace w @ [Call a]\<rparr>))"
  by (simp add: run_command_def subprocess_call_eq split: call_result.splits)

lemma run_command_frame:
  assumes "run_command env a w = (r, w1)"
  shows "fs w1 = snd (spawn env a (fs w))" "trace w1 = trace w @ [Call a]"
    "draw_mode w1 = draw_mode w" "publish_mode w1 = publish_mode w"
    "canvas_size w1 = canvas_size w" "inkscape_available_flag w1 = inkscape_available_flag w"
    "loaded w1 = loaded w" "sys_argv w1 = sys_argv w" "display w1 = display w"
    "ip_registry w1 = ip_registry w"
  using assms run_command_eq [of env a w "fst (spawn env a (fs w))" "snd (spawn env a (fs w))"]
  by (auto split: call_result.splits if_splits)

subsection \<open>The Process Runner\<close>

text \<open>
  Claim C6. \<^verbatim>\<open>run_command\<close> returns true whenever the process was launched and ran,
  whatever its exit code; it returns false, after one line on the error stream, when
  the launch raised \<^verbatim>\<open>OSError\<close>; in both cases it returns and does not raise.
\<close>

theorem run_command_boundary:
  "(spawn env args (fs w) = (Exited rc, f) \<longrightarrow> fst (run_command env args w) = Inr True) \<and>
   (spawn env args (fs w) = (Raised OSError, f) \<longrightarrow>
      fst (run_command env args w) = Inr False \<and>
      stderr (snd (run_command env args w)) = stderr w @ [''Exception OSError''])"
  by (simp add: run_command_eq)

theorem run_command_boundary_witness:
  "spawn env_idle [''blockdiag''] (fs world0) = (Exited 1, []) \<and>
   fst (run_command env_idle [''blockdiag''] world0) = Inr True \<and>
   spawn env_missing [''blockdiag''] (fs world0) = (Raised OSError, []) \<and>
   fst (run_command env_missing [''blockdiag''] world0) = Inr False"
  using run_command_boundary [of env_idle "[''blockdiag'']" world0 1 "[]"]
    run_command_boundary [of env_missing "[''blockdiag'']" world0 1 "[]"]
  by (simp add: env_idle_def env_missing_def world0_def init_world_def)

subsection \<open>The canvas size\<close>

lemmas py_int_defs =
  py_find_def py_slice_to_def py_slice_from_def py_bound_def py_int_def strip_def
  is_space_def is_digit_def digits_val_def

lemma setdiagsize_example:
  "setdiagsize ''640,480'' w = (Inr (), w\<lparr>canvas_size := (640, 480)\<rparr>)"
  by (simp add: setdiagsize_def py_int_defs)

lemma setdiagsize_trailing_comma: "setdiagsize ''10,'' w = (Inl ValueError, w)"
  by (simp add: setdiagsize_def py_int_defs)

text \<open>
  Every line made of two printed integers with a comma between them sets the canvas
  size to that pair: \<^verbatim>\<open>int\<close> reads back what \<^verbatim>\<open>str\<close> printed, and \<^verbatim>\<open>find\<close> stops at the
  comma.
\<close>

lemma digit_char_cases:
  assumes "k < 10"
  shows "is_digit (digit_char k)" "int ((of_char (digit_char k) :: nat) - 48) = int k"
    "\<not> is_space (digit_char k)" "CHR '','' \<noteq> digit_char k" "digit_char k \<noteq> CHR ''-''"
    "digit_char k \<noteq> CHR ''+''"
proof -
  from assms have "k \<in> {0, 1, 2, 3, 4, 5, 6, 7, 8, 9}" by auto
  then show "is_digit (digit_char k)" "int ((of_char (digit_char k) :: nat) - 48) = int k"
    "\<not> is_space (digit_char k)" "CHR '','' \<noteq> digit_char k" "digit_char k \<noteq> CHR ''-''"
    "digit_char k \<noteq> CHR ''+''"
    by (auto simp: digit_char_def is_digit_def is_space_def)
qed

lemma str_nat_digits: "str_nat n \<noteq> [] \<and> list_all is_digit (str_nat n)"
proof (induction n rule: str_nat.induct)
  case (1 n)
  show ?case
  proof (cases "n < 10")
    case True
    then show ?thesis
      by (subst (1 2) str_nat.simps) (simp add: digit_char_cases)
  next
    case False
    with 1 show ?thesis
      by (subst (1 2) str_nat.simps) (simp add: digit_char_cases)
  qed
qed

lemma digits_val_snoc:
  "digits_val (ds @ [c]) = 10 * digits_val ds + int ((of_char c :: nat) - 48)"
  by (simp add: digits_val_def)

lemma digits_val_str_nat: "digits_val (str_nat n) = int n"
proof (induction n rule: str_nat.induct)
  case (1 n)
  show ?case
  proof (cases "n < 10")
    case True
    then show ?thesis
      by (subst str_nat.simps) (simp add: digits_val_def digit_char_cases)
  next
    case False
    with 1 have "digits_val (str_nat (n div 10)) = int (n div 10)" by simp
    moreover have "10 * int (n div 10) + int (n mod 10) = int n"
      by presburger
    ultimately show ?thesis
      using False by (subst str_nat.simps) (simp add: digits_val_snoc digit_char_cases)
  qed
qed

lemma str_nat_ends:
  "\<not> is_space (hd (str_nat n))" "\<not> is_space (last (str_nat n))"
  "hd (str_nat n) \<noteq> CHR ''-''" "hd (str_nat n) \<noteq> CHR ''+''"
  "CHR '','' \<notin> set (str_nat n)"
proof (induction n rule: str_nat.induct)
  case (1 n)
  {
    case 1
    show ?case
      using "1.IH"(1) str_nat_digits [of "n div 10"]
      by (subst str_nat.simps) (simp add: digit_char_cases)
  next
    case 2
    show ?case
      by (subst str_nat.simps) (simp add: digit_char_cases)
  next
    case 3
    show ?case
      using "1.IH"(3) str_nat_digits [of "n div 10"]
      by (subst str_nat.simps) (simp add: digit_char_cases)
  next
    case 4
    show ?case
      using "1.IH"(4) str_nat_digits [of "n div 10"]
      by (subst str_nat.simps) (simp add: digit_char_cases)
  next
    case 5
    show ?case
      using "1.IH"(5)
      by (subst str_nat.simps) (simp add: digit_char_cases)
  }
qed

lemma strip_id:
  assumes "s \<noteq> []" and "\<not> is_space (hd s)" and "\<not> is_space (last s)"
  shows "strip s = s"
proof -
  from assms(1,2) have a: "dropWhile is_space s = s"
    by (cases s) simp_all
  from assms(1,3) have "dropWhile is_space (rev s) = rev s"
    by (cases "rev s") (simp_all add: last_rev [symmetric] hd_rev)
  with a show ?thesis by (simp add: strip_def)
qed

lemma py_int_str_int: "py_int (str_int a) = Inr a"
proof (cases "a < 0")
  case False
  let ?s = "str_nat (nat a)"
  note d = str_nat_digits [of "nat a"] and e = str_nat_ends [of "nat a"]
  have "strip ?s = ?s"
    using d e by (simp add: strip_id)
  with False d e show ?thesis
    by (simp add: py_int_def str_int_def Let_def digits_val_str_nat)
next
  case True
  let ?s = "CHR ''-'' # str_nat (nat (- a))"
  note d = str_nat_digits [of "nat (- a)"] and e = str_nat_ends [of "nat (- a)"]
  have "strip ?s = ?s"
    using d e by (intro strip_id) (simp_all add: is_space_def)
  with True d show ?thesis
    by (simp add: py_int_def str_int_def Let_def digits_val_str_nat)
qed

lemma str_int_no_comma: "CHR '','' \<notin> set (str_int a)"
  using str_nat_ends(5) by (simp add: str_int_def)

lemma py_find_first:
  assumes "c \<notin> set s"
  shows "py_find (s @ c # t) c = int (length s)"
proof -
  from assms have "takeWhile (\<lambda>x. x \<noteq> c) (s @ c # t) = s"
    by (subst takeWhile_append2) auto
  then show ?thesis by (simp add: py_find_def)
qed

lemma setdiagsize_well_formed:
  "setdiagsize (str_int a @ '','' @ str_int b) w = (Inr (), w\<lparr>canvas_size := (a, b)\<rparr>)"
proof -
  let ?line = "str_int a @ CHR '','' # str_int b"
  have k: "py_find ?line (CHR '','') = int (length (str_int a))"
    by (rule py_find_first) (rule str_int_no_comma)
  have "py_bound ?line (int (length (str_int a))) = length (str_int a)"
    by (simp add: py_bound_def)
  then have 1: "py_slice_to ?line (py_find ?line (CHR '','')) = str_int a"
    by (simp only: k py_slice_to_def) simp
  have "py_bound ?line (int (length (str_int a)) + 1) = Suc (length (str_int a))"
    by (simp add: py_bound_def)
  then have 2: "py_slice_from ?line (py_find ?line (CHR '','') + 1) = str_int b"
    by (simp only: k py_slice_from_def) simp
  have "setdiagsize ?line w = (Inr (), w\<lparr>canvas_size := (a, b)\<rparr>)"
    by (simp only: setdiagsize_def 1 2 py_int_str_int) simp
  then show ?thesis by simp
qed

text \<open>
  Claim C2 says that a line without a comma fails with a parsing error and leaves the
  canvas size unchanged. On the line \<^verbatim>\<open>640\<close> the code does not fail: \<^verbatim>\<open>find\<close> returns
  \<open>-1\<close>, the first slice is the line without its last character and the second slice
  is the whole line, so the canvas size becomes (64, 640).
\<close>

theorem setdiagsize_no_comma:
  "setdiagsize ''640'' w = (Inr (), w\<lparr>canvas_size := (64, 640)\<rparr>)"
  by (simp add: setdiagsize_def py_int_defs)

subsection \<open>What a call leaves unchanged\<close>

lemma inkscape_available_frame:
  assumes "inkscape_available env w = (r, w1)"
  shows "draw_mode w1 = draw_mode w" "publish_mode w1 = publish_mode w"
    "canvas_size w1 = canvas_size w" "loaded w1 = loaded w" "sys_argv w1 = sys_argv w"
    "display w1 = display w" "ip_registry w1 = ip_registry w"
    "r = Inr b \<Longrightarrow> inkscape_available_flag w1 = Some b"
    "isl r \<Longrightarrow> inkscape_available_flag w1 = inkscape_available_flag w"
  using assms
  by (auto simp: inkscape_available_def split: option.splits prod.splits sum.splits
      dest: run_command_frame)

lemma svg2png_frame:
  assumes "svg2png env p w = (r, w1)"
  shows "draw_mode w1 = draw_mode w" "publish_mode w1 = publish_mode w"
    "canvas_size w1 = canvas_size w" "loaded w1 = loaded w" "sys_argv w1 = sys_argv w"
    "display w1 = display w" "ip_registry w1 = ip_registry w"
    "inkscape_available_flag w1 = inkscape_available_flag w"
    "fs w1 = snd (spawn env [inkscape, p @ ''.svg'', ''--export-png='' @ p @ ''.png''] (fs w))"
    "trace w1 = trace w @ [Call [inkscape, p @ ''.svg'', ''--export-png='' @ p @ ''.png'']]"
  using assms
  by (auto simp: svg2png_def split: prod.splits sum.splits dest: run_command_frame)

lemma diag_mode_frame:
  assumes "diag_mode env w = (r, w1)"
  shows "publish_mode w1 = publish_mode w"
    "canvas_size w1 = canvas_size w" "loaded w1 = loaded w" "sys_argv w1 = sys_argv w"
    "display w1 = display w" "ip_registry w1 = ip_registry w"
    "draw_mode w1 = draw_mode w \<or> draw_mode w1 = ''SVG''"
    "mode_inv w \<Longrightarrow> mode_inv w1"
  using assms
  by (auto simp: diag_mode_def mode_inv_def inkscape_available_def
      split: if_splits prod.splits sum.splits option.splits dest: run_command_frame)

lemma diag_finally_frame:
  "diag_finally t w = (e, w1) \<Longrightarrow> \<exists>f. w1 = w\<lparr>fs := f\<rparr>"
  by (auto simp: diag_finally_def split: option.splits sum.splits prod.splits
      intro: exI [of _ "fs w"])

lemma diag_try_frame:
  assumes "diag_try env code cmd w = (r, t, w2)"
  shows "draw_mode w2 = draw_mode w" "publish_mode w2 = publish_mode w"
    "canvas_size w2 = canvas_size w" "loaded w2 = loaded w"
    "display w2 = display w" "ip_registry w2 = ip_registry w"
    "inkscape_available_flag w2 = inkscape_available_flag w"
  using assms unfolding diag_try_def Let_def subprocess_call_def
  by (auto split: sum.splits prod.splits if_splits call_result.splits dest: svg2png_frame)


lemma diag_mode_fail:
  "diag_mode env w = (Inl e, w1) \<Longrightarrow> diag env line cell cmd w = (Inl e, w1)"
  by (simp add: diag_def)

lemma diag_run:
  assumes "diag_mode env w = (Inr (), w1)"
    and "diag_try env (cell @ [CHR 0x0A]) cmd w1 = (rt, t, w2)"
    and "diag_finally t w2 = (e, w3)"
  shows "diag env line cell cmd w =
     (case e of
        Some x \<Rightarrow> (Inl x, w3)
      | None \<Rightarrow>
          (case rt of
             Inl x \<Rightarrow> (Inl x, w3)
           | Inr data \<Rightarrow>
               (Inr (),
                if publish_mode w3 = ''SVG''
                then publish_display_data ''IPython.core.displaypub.publish_svg''
                       [(''image/svg+xml'', data)] w3
                else publish_display_data ''IPython.core.displaypub.publish_png''
                       [(''image/png'', data)] w3)))"
  using assms by (simp add: diag_def)

lemma diag_cases:
  assumes "diag env line cell cmd w = (r, w')"
  obtains (mode_fail) e where "diag_mode env w = (Inl e, w')" "r = Inl e"
  | (ran) w1 rt t w2 f where "diag_mode env w = (Inr (), w1)"
      "diag_try env (cell @ [CHR 0x0A]) cmd w1 = (rt, t, w2)"
      "w' = w2\<lparr>fs := f\<rparr> \<or> (\<exists>x. w' = w2\<lparr>fs := f, display := display w2 @ [x]\<rparr>)"
proof (cases "diag_mode env w")
  case (Pair rm w1)
  show ?thesis
  proof (cases rm)
    case (Inl e)
    with Pair have m: "diag_mode env w = (Inl e, w1)" by simp
    from diag_mode_fail [OF m, of line cell cmd] assms have "r = Inl e" "w' = w1"
      by simp_all
    with m mode_fail show ?thesis by blast
  next
    case (Inr u)
    obtain rt t w2 where t: "diag_try env (cell @ [CHR 0x0A]) cmd w1 = (rt, t, w2)"
      by (cases "diag_try env (cell @ [CHR 0x0A]) cmd w1") auto
    obtain e w3 where fin: "diag_finally t w2 = (e, w3)"
      by (cases "diag_finally t w2") auto
    then obtain f where w3: "w3 = w2\<lparr>fs := f\<rparr>"
      using diag_finally_frame by blast
    from Pair Inr have m: "diag_mode env w = (Inr (), w1)" by simp
    have "w' = w2\<lparr>fs := f\<rparr> \<or> (\<exists>x. w' = w2\<lparr>fs := f, display := display w2 @ [x]\<rparr>)"
      using assms diag_run [OF m t fin, of line] w3
      by (auto simp: publish_display_data_def split: option.splits sum.splits if_splits)
    with m t ran show ?thesis by blast
  qed
qed

lemma diag_frame_conj:
  assumes "diag env line cell cmd w = (r, w')"
  shows "publish_mode w' = publish_mode w \<and> canvas_size w' = canvas_size w \<and>
    loaded w' = loaded w \<and> ip_registry w' = ip_registry w \<and>
    (draw_mode w' = draw_mode w \<or> draw_mode w' = ''SVG'') \<and>
    (mode_inv w \<longrightarrow> mode_inv w')"
  using assms
proof (cases rule: diag_cases)
  case (mode_fail e)
  note m = diag_mode_frame [OF mode_fail(1)]
  show ?thesis
    using m by simp
next
  case (ran w1 rt t w2 f)
  note m = diag_mode_frame [OF ran(1)]
  note t = diag_try_frame [OF ran(2)]
  have eq: "publish_mode w' = publish_mode w2" "canvas_size w' = canvas_size w2"
    "loaded w' = loaded w2" "ip_registry w' = ip_registry w2" "draw_mode w' = draw_mode w2"
    "inkscape_available_flag w' = inkscape_available_flag w2"
    using ran(3) by auto
  have "mode_inv w'" if "mode_inv w"
  proof -
    from that have "mode_inv w1" by (rule m(8))
    then show ?thesis using eq t by (simp add: mode_inv_def)
  qed
  then show ?thesis
    using eq m(1-7) t by simp
qed

lemma diag_frame:
  assumes "diag env line cell cmd w = (r, w')"
  shows "publish_mode w' = publish_mode w"
    "canvas_size w' = canvas_size w" "loaded w' = loaded w" "ip_registry w' = ip_registry w"
    "draw_mode w' = draw_mode w \<or> draw_mode w' = ''SVG''"
    "mode_inv w \<Longrightarrow> mode_inv w'"
  using diag_frame_conj [OF assms] by simp_all


subsection \<open>The render mode over a session\<close>

lemma setdiagsize_frame:
  "draw_mode (snd (setdiagsize line w)) = draw_mode w"
  "publish_mode (snd (setdiagsize line w)) = publish_mode w"
  "inkscape_available_flag (snd (setdiagsize line w)) = inkscape_available_flag w"
  by (simp_all add: setdiagsize_def split: sum.splits)

lemma snd_diag_frame:
  "publish_mode (snd (diag env line cell cmd w)) = publish_mode w"
  "draw_mode (snd (diag env line cell cmd w)) = draw_mode w \<or>
   draw_mode (snd (diag env line cell cmd w)) = ''SVG''"
  "mode_inv w \<Longrightarrow> mode_inv (snd (diag env line cell cmd w))"
  using diag_frame [of env line cell cmd w "fst (diag env line cell cmd w)"
      "snd (diag env line cell cmd w)"]
  by simp_all

lemma exec_magic_mode_inv:
  assumes "mode_inv w"
  shows "mode_inv (snd (exec_magic env m w))"
proof (cases m)
  case (Setdiagsize line)
  with assms show ?thesis
    by (simp add: mode_inv_def setdiagsize_frame)
next
  case (Setdiagsvg line)
  then show ?thesis by (simp add: setdiagsvg_def mode_inv_def)
next
  case (Setdiagpng line)
  then show ?thesis by (simp add: setdiagpng_def mode_inv_def)
next
  case Load_ext
  with assms show ?thesis
    by (simp add: load_ipython_extension_def register_magics_def mode_inv_def)
qed (simp_all add: actdiag_def blockdiag_def nwdiag_def seqdiag_def rackdiag_def
    packetdiag_def snd_diag_frame(3) [OF assms])

lemma run_session_mode_inv: "mode_inv w \<Longrightarrow> mode_inv (run_session env ms w)"
  by (induction ms arbitrary: w) (simp_all add: exec_magic_mode_inv)

lemma mode_inv_init: "mode_inv (init_world f a)"
  by (simp add: mode_inv_def init_world_def)

text \<open>
  Claim C7. After every sequence of operations from the initial module state, both
  mode globals hold \<^verbatim>\<open>'SVG'\<close> or \<^verbatim>\<open>'PNG'\<close>, and they start as SVG and SVG. Every prefix
  of a session is a session, so no operation assigns anything else on the way.
\<close>

theorem render_mode_valid:
  "draw_mode (run_session env ms (init_world f a)) \<in> {''SVG'', ''PNG''} \<and>
   publish_mode (run_session env ms (init_world f a)) \<in> {''SVG'', ''PNG''} \<and>
   draw_mode (init_world f a) = ''SVG'' \<and> publish_mode (init_world f a) = ''SVG''"
proof -
  have "mode_inv (run_session env ms (init_world f a))"
    by (rule run_session_mode_inv) (rule mode_inv_init)
  then show ?thesis
    by (auto simp: mode_inv_def init_world_def)
qed

lemma exec_magic_draw_svg:
  "draw_mode w = ''SVG'' \<Longrightarrow> no_setdiagpng [m] \<Longrightarrow>
   draw_mode (snd (exec_magic env m w)) = ''SVG''"
  using snd_diag_frame(2) [of env _ _ _ w]
  by (cases m)
     (auto simp: actdiag_def blockdiag_def nwdiag_def seqdiag_def rackdiag_def
       packetdiag_def setdiagsize_frame setdiagsvg_def load_ipython_extension_def
       register_magics_def)

lemma no_setdiagpng_Cons: "no_setdiagpng (m # ms) \<longleftrightarrow> no_setdiagpng [m] \<and> no_setdiagpng ms"
  by (cases m) simp_all

lemma run_session_draw_svg:
  "draw_mode w = ''SVG'' \<Longrightarrow> no_setdiagpng ms \<Longrightarrow> draw_mode (run_session env ms w) = ''SVG''"
proof (induction ms arbitrary: w)
  case Nil
  then show ?case by simp
next
  case (Cons m ms)
  from Cons.prems(2) have "no_setdiagpng [m]" "no_setdiagpng ms"
    using no_setdiagpng_Cons by blast+
  with Cons.prems(1) Cons.IH show ?case
    by (simp add: exec_magic_draw_svg)
qed

text \<open>
  Claim C9, amended. A render call with publish format PNG and an available converter
  leaves the global draw format at SVG when it returns or raises, and the draw format
  stays SVG through every later operation other than \<^verbatim>\<open>setdiagpng\<close>.
\<close>

theorem draw_mode_forced_persistently:
  assumes "publish_mode w = ''PNG''"
    and "inkscape_available env w = (Inr True, w1)"
    and "no_setdiagpng ms"
  shows "draw_mode (snd (diag env line cell cmd w)) = ''SVG'' \<and>
    draw_mode (run_session env ms (snd (diag env line cell cmd w))) = ''SVG''"
proof -
  have m: "diag_mode env w = (Inr (), w1\<lparr>draw_mode := ''SVG''\<rparr>)"
    using assms(1,2) by (simp add: diag_mode_def)
  obtain r w' where d: "diag env line cell cmd w = (r, w')"
    by (cases "diag env line cell cmd w") auto
  then have "draw_mode w' = ''SVG''"
  proof (cases rule: diag_cases)
    case (mode_fail e)
    with m show ?thesis by simp
  next
    case (ran w1' rt t w2 f)
    with m have "draw_mode w2 = ''SVG''"
      using diag_try_frame(1) [OF ran(2)] by simp
    with ran(3) show ?thesis by auto
  qed
  with d assms(3) show ?thesis
    by (simp add: run_session_draw_svg)
qed

theorem draw_mode_forced_persistently_witness:
  "publish_mode (snd (setdiagpng [] world0)) = ''PNG'' \<and>
   fst (inkscape_available env_idle (snd (setdiagpng [] world0))) = Inr True \<and>
   no_setdiagpng [Setdiagsize ''640,480'', Blockdiag [] ''{}''] \<and>
   draw_mode (snd (diag env_idle [] ''{}'' ''blockdiag'' (snd (setdiagpng [] world0)))) = ''SVG'' \<and>
   draw_mode (run_session env_idle [Setdiagsize ''640,480'', Blockdiag [] ''{}'']
     (snd (diag env_idle [] ''{}'' ''blockdiag'' (snd (setdiagpng [] world0))))) = ''SVG''"
proof -
  have h1: "publish_mode (snd (setdiagpng [] world0)) = ''PNG''"
    by (simp add: setdiagpng_def)
  have h2: "fst (inkscape_available env_idle (snd (setdiagpng [] world0))) = Inr True"
    by (simp add: inkscape_available_def run_command_def subprocess_call_def env_idle_def
        setdiagpng_def world0_def init_world_def)
  then have h2p: "inkscape_available env_idle (snd (setdiagpng [] world0)) =
      (Inr True, snd (inkscape_available env_idle (snd (setdiagpng [] world0))))"
    by (simp add: prod_eq_iff)
  have h3: "no_setdiagpng [Setdiagsize ''640,480'', Blockdiag [] ''{}'']"
    by simp
  from draw_mode_forced_persistently [OF h1 h2p h3, of "[]" "''{}''" "''blockdiag''"] h1 h2 h3
  show ?thesis by simp
qed

text \<open>
  Claim C9 as stated says that the draw format remains SVG for all subsequent
  operations. A \<^verbatim>\<open>setdiagpng\<close> after the render call assigns PNG again.
\<close>

theorem draw_mode_reset_counterexample:
  "publish_mode (snd (setdiagpng [] world0)) = ''PNG'' \<and>
   fst (inkscape_available env_idle (snd (setdiagpng [] world0))) = Inr True \<and>
   draw_mode (snd (diag env_idle [] ''{}'' ''blockdiag'' (snd (setdiagpng [] world0)))) = ''SVG'' \<and>
   draw_mode (run_session env_idle [Setdiagpng []]
     (snd (diag env_idle [] ''{}'' ''blockdiag'' (snd (setdiagpng [] world0))))) \<noteq> ''SVG''"
  by code_simp

subsection \<open>The steps of a render call\<close>

lemma diag_try_tool:
  assumes "tempfile_mkdtemp env (fs w) = Inr (d, f1)"
    and "tempfile_mkstemp env d f1 = Inr (p, f2)"
    and "spawn env (tool_argv cmd (lower (draw_mode w)) (canvas_size w)
           (p @ ''.'' @ lower (draw_mode w)) p) (write_file p code f2) = (r, f4)"
  shows "diag_try env code cmd w =
    (case r of
       Raised e \<Rightarrow>
         (Inl e, Some d,
          w\<lparr>fs := f4,
            trace := trace w @ [Mkdtemp d, Call (tool_argv cmd (lower (draw_mode w))
              (canvas_size w) (p @ ''.'' @ lower (draw_mode w)) p)],
            sys_argv := tool_argv cmd (lower (draw_mode w)) (canvas_size w)
              (p @ ''.'' @ lower (draw_mode w)) p\<rparr>)
     | Exited rc \<Rightarrow>
         (case (if draw_mode w = ''SVG'' \<and> publish_mode w = ''PNG''
                then svg2png env p
                  (w\<lparr>fs := f4,
                     trace := trace w @ [Mkdtemp d, Call (tool_argv cmd (lower (draw_mode w))
                       (canvas_size w) (p @ ''.'' @ lower (draw_mode w)) p)]\<rparr>)
                else (Inr (),
                  w\<lparr>fs := f4,
                    trace := trace w @ [Mkdtemp d, Call (tool_argv cmd (lower (draw_mode w))
                      (canvas_size w) (p @ ''.'' @ lower (draw_mode w)) p)]\<rparr>)) of
            (Inl e, w6) \<Rightarrow> (Inl e, Some d, w6)
          | (Inr u, w6) \<Rightarrow>
              (io_open_read (p @ ''.'' @ lower (publish_mode w)) (fs w6), Some d,
               w6\<lparr>trace := trace w6 @ [Open (p @ ''.'' @ lower (publish_mode w))]\<rparr>)))"
  using assms
  by (auto simp: diag_try_def Let_def subprocess_call_def
      split: call_result.splits prod.splits sum.splits dest: svg2png_frame(2))



lemma opened_append: "opened (xs @ ys) = opened xs @ opened ys"
  by (induction xs rule: opened.induct) simp_all

lemma lower_modes: "lower ''SVG'' = ''svg''" "lower ''PNG'' = ''png''"
  by (simp_all add: lower_def lower_char_def)

lemma diag_after_try:
  assumes "diag_mode env w = (Inr (), w1)"
    and "diag_try env (cell @ [CHR 0x0A]) cmd w1 = (rt, tmp, w2)"
  shows "trace (snd (diag env line cell cmd w)) = trace w2"
    "sys_argv (snd (diag env line cell cmd w)) = sys_argv w2"
    "stderr (snd (diag env line cell cmd w)) = stderr w2"
    "isl rt \<Longrightarrow> isl (fst (diag env line cell cmd w))"
    "isl rt \<Longrightarrow> display (snd (diag env line cell cmd w)) = display w2"
proof -
  obtain e w3 where fin: "diag_finally tmp w2 = (e, w3)"
    by (cases "diag_finally tmp w2") auto
  then obtain f where w3: "w3 = w2\<lparr>fs := f\<rparr>"
    using diag_finally_frame by blast
  note run = diag_run [OF assms fin, of line]
  show "trace (snd (diag env line cell cmd w)) = trace w2"
    "sys_argv (snd (diag env line cell cmd w)) = sys_argv w2"
    "stderr (snd (diag env line cell cmd w)) = stderr w2"
    by (simp_all add: run w3 publish_display_data_def split: option.splits sum.splits)
  show "isl (fst (diag env line cell cmd w))"
    "display (snd (diag env line cell cmd w)) = display w2" if "isl rt"
    using that by (auto simp: run w3 split: option.splits sum.splits)
qed

lemma diag_after_try_tidy:
  assumes "diag_mode env w = (Inr (), w1)"
    and "diag_try env (cell @ [CHR 0x0A]) cmd w1 = (rt, Some d, w2)"
    and "tidy d (fs w2)"
  shows "fst (diag env line cell cmd w) = (case rt of Inl e \<Rightarrow> Inl e | Inr data \<Rightarrow> Inr ())"
    "\<not> occupied (fs (snd (diag env line cell cmd w))) d"
    "display (snd (diag env line cell cmd w)) =
       (case rt of
          Inl e \<Rightarrow> display w2
        | Inr data \<Rightarrow>
            display w2 @
              [if publish_mode w2 = ''SVG''
               then (''IPython.core.displaypub.publish_svg'', [(''image/svg+xml'', data)])
               else (''IPython.core.displaypub.publish_png'', [(''image/png'', data)])])"
proof -
  from diag_finally_tidy [OF assms(3)] obtain f where
    fin: "diag_finally (Some d) w2 = (None, w2\<lparr>fs := f\<rparr>)" and free: "\<not> occupied f d"
    by blast
  note run = diag_run [OF assms(1,2) fin, of line]
  show "fst (diag env line cell cmd w) = (case rt of Inl e \<Rightarrow> Inl e | Inr data \<Rightarrow> Inr ())"
    by (simp add: run split: sum.splits)
  show "\<not> occupied (fs (snd (diag env line cell cmd w))) d"
    using free by (simp add: run publish_display_data_def split: sum.splits)
  show "display (snd (diag env line cell cmd w)) =
       (case rt of
          Inl e \<Rightarrow> display w2
        | Inr data \<Rightarrow>
            display w2 @
              [if publish_mode w2 = ''SVG''
               then (''IPython.core.displaypub.publish_svg'', [(''image/svg+xml'', data)])
               else (''IPython.core.displaypub.publish_png'', [(''image/png'', data)])])"
    by (simp add: run publish_display_data_def split: sum.splits)
qed

lemma staged_tidy:
  assumes "tempfile_mkdtemp env f = Inr (d, f1)"
    and "tempfile_mkstemp env d f1 = Inr (p, f2)"
  shows "tidy d (write_file p code f2)" "\<exists>n. valid_name n \<and> p = join d n"
proof -
  from mkstemp_tidy [OF assms(2) mkdtemp_tidy(1) [OF assms(1)]] obtain n where
    n: "valid_name n" "p = join d n" "tidy d f2"
    by blast
  then show "tidy d (write_file p code f2)" by (simp add: write_file_tidy)
  from n show "\<exists>n. valid_name n \<and> p = join d n" by blast
qed


lemma diag_mode_trace:
  assumes "diag_mode env w = (r, w1)"
  shows "\<exists>evs. trace w1 = trace w @ evs \<and> made_dirs evs = [] \<and> opened evs = []"
proof (cases "publish_mode w = ''PNG'' \<and> inkscape_available_flag w = None")
  case True
  obtain rc wc where rc: "run_command env [inkscape, ''--export-png''] w = (rc, wc)"
    by (cases "run_command env [inkscape, ''--export-png''] w") auto
  have "trace w1 = trace w @ [Call [inkscape, ''--export-png'']]"
    using assms True rc run_command_frame(2) [OF rc]
    by (auto simp: diag_mode_def inkscape_available_def split: sum.splits)
  then show ?thesis by simp
next
  case False
  then have "trace w1 = trace w"
    using assms
    by (auto simp: diag_mode_def inkscape_available_def split: if_splits option.splits)
  then show ?thesis by simp
qed


lemma svg2png_eq:
  assumes "spawn env [inkscape, p @ ''.svg'', ''--export-png='' @ p @ ''.png''] (fs w) = (r2, f5)"
  shows "\<exists>rs w6. svg2png env p w = (rs, w6) \<and> fs w6 = f5 \<and>
     trace w6 = trace w @ [Call [inkscape, p @ ''.svg'', ''--export-png='' @ p @ ''.png'']] \<and>
     publish_mode w6 = publish_mode w \<and> display w6 = display w \<and>
     (if ran_or_oserror r2 then rs = Inr () else isl rs)"
  using run_command_eq [OF assms]
  by (cases r2) (simp_all add: svg2png_def)

lemma diag_try_staged:
  assumes "tempfile_mkdtemp env (fs w) = Inr (d, f1)"
    and "tempfile_mkstemp env d f1 = Inr (p, f2)"
    and "argv = [cmd, ''-T'', lower (draw_mode w), ''--size'',
           str_int (fst (canvas_size w)) @ ''x'' @ str_int (snd (canvas_size w)),
           ''-o'', p @ ''.'' @ lower (draw_mode w), p]"
    and "spawn env argv (write_file p code f2) = (r, f4)"
    and "conv = [inkscape, p @ ''.svg'', ''--export-png='' @ p @ ''.png'']"
    and "spawn env conv f4 = (r2, f5)"
  shows "\<exists>rt w2. diag_try env code cmd w = (rt, Some d, w2) \<and>
     display w2 = display w \<and> publish_mode w2 = publish_mode w \<and>
     (case r of
        Raised e \<Rightarrow> rt = Inl e \<and> fs w2 = f4 \<and> trace w2 = trace w @ [Mkdtemp d, Call argv]
      | Exited rc \<Rightarrow>
          if draw_mode w = ''SVG'' \<and> publish_mode w = ''PNG''
          then fs w2 = f5 \<and>
            (if ran_or_oserror r2
             then rt = io_open_read (p @ ''.png'') f5 \<and>
               trace w2 = trace w @ [Mkdtemp d, Call argv, Call conv, Open (p @ ''.png'')]
             else isl rt \<and> trace w2 = trace w @ [Mkdtemp d, Call argv, Call conv])
          else fs w2 = f4 \<and> rt = io_open_read (p @ ''.'' @ lower (publish_mode w)) f4 \<and>
            trace w2 =
              trace w @ [Mkdtemp d, Call argv, Open (p @ ''.'' @ lower (publish_mode w))])"
proof -
  have T: "spawn env (tool_argv cmd (lower (draw_mode w)) (canvas_size w)
      (p @ ''.'' @ lower (draw_mode w)) p) (write_file p code f2) = (r, f4)"
    using assms(3,4) by (simp add: tool_argv_def)
  have A: "tool_argv cmd (lower (draw_mode w)) (canvas_size w)
      (p @ ''.'' @ lower (draw_mode w)) p = argv"
    using assms(3) by (simp add: tool_argv_def)
  note run = diag_try_tool [OF assms(1,2) T, unfolded A]
  show ?thesis
  proof (cases r)
    case (Raised e)
    with run show ?thesis by simp
  next
    case (Exited rc)
    show ?thesis
    proof (cases "draw_mode w = ''SVG'' \<and> publish_mode w = ''PNG''")
      case False
      with run Exited show ?thesis by auto
    next
      case True
      let ?W = "w\<lparr>fs := f4, trace := trace w @ [Mkdtemp d, Call argv]\<rparr>"
      have "spawn env [inkscape, p @ ''.svg'', ''--export-png='' @ p @ ''.png''] (fs ?W) =
          (r2, f5)"
        using assms(5,6) by simp
      from svg2png_eq [OF this] obtain rs w6 where
        C: "svg2png env p ?W = (rs, w6)" and w6: "fs w6 = f5"
          "trace w6 = trace w @ [Mkdtemp d, Call argv, Call conv]"
          "publish_mode w6 = publish_mode w" "display w6 = display w"
          "if ran_or_oserror r2 then rs = Inr () else isl rs"
        using assms(5) by auto
      show ?thesis
      proof (cases "ran_or_oserror r2")
        case ok: True
        with w6 have "rs = Inr ()" by simp
        with run Exited True C w6 ok show ?thesis
          by (simp add: lower_modes)
      next
        case bad: False
        with w6 obtain x where "rs = Inl x" by (cases rs) auto
        with run Exited True C w6 bad show ?thesis
          by simp
      qed
    qed
  qed
qed

subsection \<open>The argument vector of the interpreter\<close>

text \<open>
  Claim C10. A render call that gets as far as the dialect tool runs it on
  \<^verbatim>\<open>sys.argv\<close>, which it has replaced by the tool's command line. When the invocation
  returns, \<^verbatim>\<open>sys.argv\<close> is back at its prior value at the end of the call; when the
  invocation raises, the call raises too (the same exception when the cleanup
  succeeds) and \<^verbatim>\<open>sys.argv\<close> still holds the tool's command line.
\<close>

theorem sys_argv_restored_only_on_return:
  assumes "diag_mode env w = (Inr (), w1)"
    and "tempfile_mkdtemp env (fs w1) = Inr (d, f1)"
    and "tempfile_mkstemp env d f1 = Inr (p, f2)"
    and "spawn env (diag_argv cmd w1 p) (write_file p (cell @ [CHR 0x0A]) f2) = (r, f4)"
  shows "Call (diag_argv cmd w1 p) \<in> set (trace (snd (diag env line cell cmd w))) \<and>
    (case r of
       Exited rc \<Rightarrow> sys_argv (snd (diag env line cell cmd w)) = sys_argv w
     | Raised e \<Rightarrow>
         sys_argv (snd (diag env line cell cmd w)) = diag_argv cmd w1 p \<and>
         isl (fst (diag env line cell cmd w)) \<and>
         (tidy d f4 \<longrightarrow> fst (diag env line cell cmd w) = Inl e))"
proof -
  obtain rt tmp w2 where t: "diag_try env (cell @ [CHR 0x0A]) cmd w1 = (rt, tmp, w2)"
    by (cases "diag_try env (cell @ [CHR 0x0A]) cmd w1") auto
  note run = diag_try_tool [OF assms(2,3) assms(4) [unfolded diag_argv_def]]
  note after = diag_after_try [OF assms(1) t, of line]
  note argv0 = diag_mode_frame(4) [OF assms(1)]
  show ?thesis
  proof (cases r)
    case (Raised e)
    with run t have eq: "rt = Inl e" "tmp = Some d" "sys_argv w2 = diag_argv cmd w1 p"
      "fs w2 = f4" "Call (diag_argv cmd w1 p) \<in> set (trace w2)"
      by (auto simp: diag_argv_def)
    have "fst (diag env line cell cmd w) = Inl e" if "tidy d f4"
      using diag_after_try_tidy(1) [of env w w1 cell cmd rt d w2 line] assms(1) t eq that
      by simp
    with Raised eq after show ?thesis by simp
  next
    case (Exited rc)
    show ?thesis
    proof (cases "draw_mode w1 = ''SVG'' \<and> publish_mode w1 = ''PNG''")
      case False
      with run t Exited have "sys_argv w2 = sys_argv w1"
        "Call (diag_argv cmd w1 p) \<in> set (trace w2)"
        by (auto simp: diag_argv_def)
      with Exited after argv0 show ?thesis by simp
    next
      case True
      let ?W = "w1\<lparr>fs := f4,
                   trace := trace w1 @ [Mkdtemp d, Call (tool_argv cmd (lower (draw_mode w1))
                     (canvas_size w1) (p @ ''.'' @ lower (draw_mode w1)) p)]\<rparr>"
      obtain rs w6 where C: "svg2png env p ?W = (rs, w6)"
        by (cases "svg2png env p ?W") auto
      note fr = svg2png_frame(5,10) [OF C]
      have "sys_argv w2 = sys_argv w6"
        and "trace w2 = trace w6 \<or> (\<exists>x. trace w2 = trace w6 @ [Open x])"
        using run t Exited True C by (auto split: sum.splits)
      with fr have "sys_argv w2 = sys_argv w1" "Call (diag_argv cmd w1 p) \<in> set (trace w2)"
        by (auto simp: diag_argv_def)
      with Exited after argv0 show ?thesis by simp
    qed
  qed
qed


lemma staged_example:
  "tempfile_mkdtemp env_missing (fs world0) = Inr (''/tmp/tmpd'', [(''/tmp/tmpd'', Dir)])"
  "tempfile_mkstemp env_missing ''/tmp/tmpd'' [(''/tmp/tmpd'', Dir)] =
     Inr (''/tmp/tmpd/tmpf'', [(''/tmp/tmpd'', Dir), (''/tmp/tmpd/tmpf'', File [])])"
  "tempfile_mkdtemp env_idle (fs world0) = Inr (''/tmp/tmpd'', [(''/tmp/tmpd'', Dir)])"
  "tempfile_mkstemp env_idle ''/tmp/tmpd'' [(''/tmp/tmpd'', Dir)] =
     Inr (''/tmp/tmpd/tmpf'', [(''/tmp/tmpd'', Dir), (''/tmp/tmpd/tmpf'', File [])])"
  "tidy ''/tmp/tmpd'' (write_file ''/tmp/tmpd/tmpf'' (''{}'' @ [CHR 0x0A])
     [(''/tmp/tmpd'', Dir), (''/tmp/tmpd/tmpf'', File [])])"
  "diag_argv ''blockdiag'' world0 ''/tmp/tmpd/tmpf'' =
     [''blockdiag'', ''-T'', ''svg'', ''--size'', ''1000x500'', ''-o'',
      ''/tmp/tmpd/tmpf.svg'', ''/tmp/tmpd/tmpf'']"
  by code_simp+

lemma diag_mode_svg: "publish_mode w = ''SVG'' \<Longrightarrow> diag_mode env w = (Inr (), w)"
  by (simp add: diag_mode_def)

lemma world0_modes: "publish_mode world0 = ''SVG''" "draw_mode world0 = ''SVG''"
  "sys_argv world0 = [''ipython'']" "trace world0 = []" "stderr world0 = []"
  "display world0 = []" "fs world0 = []"
  by (simp_all add: world0_def init_world_def)

theorem sys_argv_restored_only_on_return_witness:
  "sys_argv (snd (diag env_missing [] ''{}'' ''blockdiag'' world0)) =
     [''blockdiag'', ''-T'', ''svg'', ''--size'', ''1000x500'', ''-o'',
      ''/tmp/tmpd/tmpf.svg'', ''/tmp/tmpd/tmpf''] \<and>
   fst (diag env_missing [] ''{}'' ''blockdiag'' world0) = Inl OSError \<and>
   sys_argv (snd (diag env_idle [] ''{}'' ''blockdiag'' world0)) = [''ipython'']"
proof -
  note m = diag_mode_svg [OF world0_modes(1)]
  have t1: "spawn env_missing (diag_argv ''blockdiag'' world0 ''/tmp/tmpd/tmpf'')
      (write_file ''/tmp/tmpd/tmpf'' (''{}'' @ [CHR 0x0A])
         [(''/tmp/tmpd'', Dir), (''/tmp/tmpd/tmpf'', File [])]) =
      (Raised OSError, write_file ''/tmp/tmpd/tmpf'' (''{}'' @ [CHR 0x0A])
         [(''/tmp/tmpd'', Dir), (''/tmp/tmpd/tmpf'', File [])])"
    by (simp add: env_missing_def)
  have t2: "spawn env_idle (diag_argv ''blockdiag'' world0 ''/tmp/tmpd/tmpf'')
      (write_file ''/tmp/tmpd/tmpf'' (''{}'' @ [CHR 0x0A])
         [(''/tmp/tmpd'', Dir), (''/tmp/tmpd/tmpf'', File [])]) =
      (Exited 1, write_file ''/tmp/tmpd/tmpf'' (''{}'' @ [CHR 0x0A])
         [(''/tmp/tmpd'', Dir), (''/tmp/tmpd/tmpf'', File [])])"
    by (simp add: env_idle_def)
  from sys_argv_restored_only_on_return [OF m staged_example(1,2) t1, of "[]"]
    sys_argv_restored_only_on_return [OF m staged_example(3,4) t2, of "[]"]
    staged_example(5,6) world0_modes(3)
  show ?thesis by simp
qed

subsection \<open>A dialect tool that cannot be launched\<close>

text \<open>
  Claim C1, amended. The dialect tool is not run through \<^verbatim>\<open>run_command\<close>. When its
  launch raises \<^verbatim>\<open>OSError\<close>, the render call raises that \<^verbatim>\<open>OSError\<close> after the
  cleanup: the output file is never opened, nothing is written to the error stream
  for it and nothing is published.
\<close>

theorem dialect_launch_failure_propagates:
  assumes "diag_mode env w = (Inr (), w1)"
    and "tempfile_mkdtemp env (fs w1) = Inr (d, f1)"
    and "tempfile_mkstemp env d f1 = Inr (p, f2)"
    and "spawn env (diag_argv cmd w1 p) (write_file p (cell @ [CHR 0x0A]) f2) =
           (Raised OSError, f4)"
    and "tidy d f4"
  shows "fst (diag env line cell cmd w) = Inl OSError \<and>
    opened (trace (snd (diag env line cell cmd w))) = opened (trace w) \<and>
    stderr (snd (diag env line cell cmd w)) = stderr w1 \<and>
    display (snd (diag env line cell cmd w)) = display w \<and>
    \<not> occupied (fs (snd (diag env line cell cmd w))) d"
proof -
  note run = diag_try_tool [OF assms(2,3) assms(4) [unfolded diag_argv_def]]
  let ?w2 = "w1\<lparr>fs := f4,
      trace := trace w1 @ [Mkdtemp d, Call (tool_argv cmd (lower (draw_mode w1))
        (canvas_size w1) (p @ ''.'' @ lower (draw_mode w1)) p)],
      sys_argv := tool_argv cmd (lower (draw_mode w1)) (canvas_size w1)
        (p @ ''.'' @ lower (draw_mode w1)) p\<rparr>"
  from run have t: "diag_try env (cell @ [CHR 0x0A]) cmd w1 = (Inl OSError, Some d, ?w2)"
    by simp
  from diag_mode_trace [OF assms(1)] obtain evs where
    evs: "trace w1 = trace w @ evs" "opened evs = []"
    by blast
  note after = diag_after_try [OF assms(1) t, of line]
  have "tidy d (fs ?w2)" using assms(5) by simp
  note fin = diag_after_try_tidy [OF assms(1) t this, of line]
  have "opened (trace (snd (diag env line cell cmd w))) = opened (trace w)"
    using after(1) evs by (simp add: opened_append)
  moreover have "display (snd (diag env line cell cmd w)) = display w"
    using after(5) diag_mode_frame(5) [OF assms(1)] by simp
  ultimately show ?thesis
    using fin(1,2) after(3) by simp
qed

theorem dialect_launch_failure_propagates_witness:
  "fst (diag env_missing [] ''{}'' ''blockdiag'' world0) = Inl OSError \<and>
   opened (trace (snd (diag env_missing [] ''{}'' ''blockdiag'' world0))) = [] \<and>
   display (snd (diag env_missing [] ''{}'' ''blockdiag'' world0)) = [] \<and>
   \<not> occupied (fs (snd (diag env_missing [] ''{}'' ''blockdiag'' world0))) ''/tmp/tmpd''"
proof -
  note m = diag_mode_svg [OF world0_modes(1)]
  have t1: "spawn env_missing (diag_argv ''blockdiag'' world0 ''/tmp/tmpd/tmpf'')
      (write_file ''/tmp/tmpd/tmpf'' (''{}'' @ [CHR 0x0A])
         [(''/tmp/tmpd'', Dir), (''/tmp/tmpd/tmpf'', File [])]) =
      (Raised OSError, write_file ''/tmp/tmpd/tmpf'' (''{}'' @ [CHR 0x0A])
         [(''/tmp/tmpd'', Dir), (''/tmp/tmpd/tmpf'', File [])])"
    by (simp add: env_missing_def)
  from dialect_launch_failure_propagates [OF m staged_example(1,2) t1 staged_example(5), of "[]"]
    world0_modes
  show ?thesis by simp
qed

text \<open>
  Claim C1 as stated says that the launch failure is caught and surfaces only as a
  file-not-found condition when the artifact is read. With no executable installed
  the call raises \<^verbatim>\<open>OSError\<close>, not \<^verbatim>\<open>IOError\<close>, and opens no file.
\<close>

theorem dialect_launch_failure_counterexample:
  "fst (spawn env_missing [''blockdiag'', ''-T'', ''svg'', ''--size'', ''1000x500'', ''-o'',
      ''/tmp/tmpd/tmpf.svg'', ''/tmp/tmpd/tmpf'']
      [(''/tmp/tmpd'', Dir), (''/tmp/tmpd/tmpf'', File (''{}'' @ [CHR 0x0A]))]) = Raised OSError \<and>
   fst (blockdiag env_missing [] ''{}'' world0) = Inl OSError \<and>
   fst (blockdiag env_missing [] ''{}'' world0) \<noteq> Inl IOError \<and>
   opened (trace (snd (blockdiag env_missing [] ''{}'' world0))) = [] \<and>
   stderr (snd (blockdiag env_missing [] ''{}'' world0)) = []"
  by code_simp

subsection \<open>The order of the steps in PNG mode\<close>

lemma inkscape_available_cached:
  "inkscape_available_flag w = Some b \<Longrightarrow> inkscape_available env w = (Inr b, w)"
  by (simp add: inkscape_available_def)

lemma world_png_fields: "publish_mode world_png = ''PNG''" "draw_mode world_png = ''PNG''"
  "canvas_size world_png = (1000, 500)" "fs world_png = []" "trace world_png = []"
  "display world_png = []" "inkscape_available_flag world_png = None" "mode_inv world_png"
  by (simp_all add: world_png_def setdiagpng_def world0_def init_world_def mode_inv_def)


text \<open>
  Claim C3, amended. A render call with publish format PNG, in a mode state that a
  session can reach, that gets as far as the dialect tool (its temporary directory and
  input file were made). When the availability probe returns true, the dialect tool is
  invoked with \<^verbatim>\<open>-T svg\<close> and a \<^verbatim>\<open>.svg\<close> output file; if that invocation returns, the
  converter is invoked next, and then the \<^verbatim>\<open>.png\<close> artifact is opened, unless the
  converter's launch raised something other than \<^verbatim>\<open>OSError\<close>. When the probe returns
  false, the dialect tool is invoked with \<^verbatim>\<open>-T png\<close> and a \<^verbatim>\<open>.png\<close> output file; if that
  invocation returns, the \<^verbatim>\<open>.png\<close> artifact is opened, with no converter invocation.
  If the invocation of the dialect tool raises, the call raises, no converter is
  invoked and no file is opened. The events of the call after the probe are exactly
  these.
\<close>

theorem png_pipeline_order:
  assumes "mode_inv w" and "publish_mode w = ''PNG''"
    and "inkscape_available env w = (Inr av, w1)"
    and "tempfile_mkdtemp env (fs w1) = Inr (d, f1)"
    and "tempfile_mkstemp env d f1 = Inr (p, f2)"
    and "fmt = (if av then ''svg'' else ''png'')"
    and "sz = str_int (fst (canvas_size w)) @ ''x'' @ str_int (snd (canvas_size w))"
    and "spawn env [cmd, ''-T'', fmt, ''--size'', sz, ''-o'', p @ ''.'' @ fmt, p]
           (write_file p (cell @ [CHR 0x0A]) f2) = (r, f4)"
    and "spawn env [inkscape, p @ ''.svg'', ''--export-png='' @ p @ ''.png''] f4 = (r2, f5)"
  shows "trace (snd (diag env line cell cmd w)) =
     trace w1 @
       (if av
        then [Mkdtemp d,
              Call [cmd, ''-T'', ''svg'', ''--size'', sz, ''-o'', p @ ''.svg'', p]] @
             (case r of
                Raised e \<Rightarrow> []
              | Exited rc \<Rightarrow>
                  Call [inkscape, p @ ''.svg'', ''--export-png='' @ p @ ''.png''] #
                  (if ran_or_oserror r2 then [Open (p @ ''.png'')] else []))
        else [Mkdtemp d,
              Call [cmd, ''-T'', ''png'', ''--size'', sz, ''-o'', p @ ''.png'', p]] @
             (case r of Raised e \<Rightarrow> [] | Exited rc \<Rightarrow> [Open (p @ ''.png'')])) \<and>
     (case r of Raised e \<Rightarrow> isl (fst (diag env line cell cmd w)) | Exited rc \<Rightarrow> True)"
proof -
  note fr = inkscape_available_frame(1-3) [OF assms(3)]
  let ?w1 = "if av then w1\<lparr>draw_mode := ''SVG''\<rparr> else w1"
  have m: "diag_mode env w = (Inr (), ?w1)"
    using assms(2,3) by (simp add: diag_mode_def)
  have dm: "draw_mode ?w1 = (if av then ''SVG'' else ''PNG'')"
  proof (cases av)
    case True
    then show ?thesis by simp
  next
    case False
    have "inkscape_available_flag w \<noteq> Some True"
      using inkscape_available_cached [of w True env] assms(3) False by auto
    with assms(1,2) have "draw_mode w = ''PNG''"
      by (auto simp: mode_inv_def)
    with fr False show ?thesis by simp
  qed
  have w1: "fs ?w1 = fs w1" "trace ?w1 = trace w1" "canvas_size ?w1 = canvas_size w"
    "publish_mode ?w1 = ''PNG''"
    using fr assms(2) by simp_all
  have M: "tempfile_mkdtemp env (fs ?w1) = Inr (d, f1)"
    using assms(4) w1(1) by simp
  have A: "[cmd, ''-T'', fmt, ''--size'', sz, ''-o'', p @ ''.'' @ fmt, p] =
      [cmd, ''-T'', lower (draw_mode ?w1), ''--size'',
       str_int (fst (canvas_size ?w1)) @ ''x'' @ str_int (snd (canvas_size ?w1)),
       ''-o'', p @ ''.'' @ lower (draw_mode ?w1), p]"
    unfolding dm w1(3) using assms(6,7) by (simp add: lower_modes)
  let ?argv = "[cmd, ''-T'', fmt, ''--size'', sz, ''-o'', p @ ''.'' @ fmt, p]"
  let ?conv = "[inkscape, p @ ''.svg'', ''--export-png='' @ p @ ''.png'']"
  from diag_try_staged [OF M assms(5) A assms(8) refl assms(9)] obtain rt w2 where
    t: "diag_try env (cell @ [CHR 0x0A]) cmd ?w1 = (rt, Some d, w2)"
    and w2: "case r of
        Raised e \<Rightarrow> rt = Inl e \<and> fs w2 = f4 \<and> trace w2 = trace ?w1 @ [Mkdtemp d, Call ?argv]
      | Exited rc \<Rightarrow>
          if draw_mode ?w1 = ''SVG'' \<and> publish_mode ?w1 = ''PNG''
          then fs w2 = f5 \<and>
            (if ran_or_oserror r2
             then rt = io_open_read (p @ ''.png'') f5 \<and>
               trace w2 = trace ?w1 @ [Mkdtemp d, Call ?argv, Call ?conv, Open (p @ ''.png'')]
             else isl rt \<and> trace w2 = trace ?w1 @ [Mkdtemp d, Call ?argv, Call ?conv])
          else fs w2 = f4 \<and> rt = io_open_read (p @ ''.'' @ lower (publish_mode ?w1)) f4 \<and>
            trace w2 =
              trace ?w1 @ [Mkdtemp d, Call ?argv, Open (p @ ''.'' @ lower (publish_mode ?w1))]"
    by (elim exE conjE) (rule that)
  note after = diag_after_try(1,4) [OF m t, of line]
  show ?thesis
  proof (cases r)
    case (Raised e)
    with w2 have "rt = Inl e" "trace w2 = trace w1 @
        [Mkdtemp d, Call [cmd, ''-T'', fmt, ''--size'', sz, ''-o'', p @ ''.'' @ fmt, p]]"
      by (simp_all add: w1(2))
    with after Raised assms(6) show ?thesis by simp
  next
    case (Exited rc)
    show ?thesis
    proof (cases av)
      case True
      with w2 Exited dm w1 assms(6) after(1) show ?thesis
        by (simp add: lower_modes)
    next
      case False
      with w2 Exited dm w1 assms(6) after(1) show ?thesis
        by (simp add: lower_modes)
    qed
  qed
qed

lemma staged_example_more:
  "tempfile_mkdtemp env_distinct [] = Inr (''/tmp/tmpd'', [(''/tmp/tmpd'', Dir)])"
  "tempfile_mkstemp env_distinct ''/tmp/tmpd'' [(''/tmp/tmpd'', Dir)] =
     Inr (''/tmp/tmpd/tmpf'', [(''/tmp/tmpd'', Dir), (''/tmp/tmpd/tmpf'', File [])])"
  "tempfile_mkdtemp env_native [] = Inr (''/tmp/tmpd'', [(''/tmp/tmpd'', Dir)])"
  "tempfile_mkstemp env_native ''/tmp/tmpd'' [(''/tmp/tmpd'', Dir)] =
     Inr (''/tmp/tmpd/tmpf'', [(''/tmp/tmpd'', Dir), (''/tmp/tmpd/tmpf'', File [])])"
  "''1000x500'' =
     str_int (fst (canvas_size world_png)) @ ''x'' @ str_int (snd (canvas_size world_png))"
  "''1000x500'' =
     str_int (fst (canvas_size world0)) @ ''x'' @ str_int (snd (canvas_size world0))"
  by code_simp+

theorem png_pipeline_order_witness:
  "trace (snd (diag env_distinct [] ''{}'' ''blockdiag'' world_png)) =
     [Call [inkscape, ''--export-png''], Mkdtemp ''/tmp/tmpd'',
      Call [''blockdiag'', ''-T'', ''svg'', ''--size'', ''1000x500'', ''-o'',
            ''/tmp/tmpd/tmpf.svg'', ''/tmp/tmpd/tmpf''],
      Call [inkscape, ''/tmp/tmpd/tmpf.svg'', ''--export-png=/tmp/tmpd/tmpf.png''],
      Open ''/tmp/tmpd/tmpf.png''] \<and>
   trace (snd (diag env_native [] ''{}'' ''blockdiag'' world_png)) =
     [Call [inkscape, ''--export-png''], Mkdtemp ''/tmp/tmpd'',
      Call [''blockdiag'', ''-T'', ''png'', ''--size'', ''1000x500'', ''-o'',
            ''/tmp/tmpd/tmpf.png'', ''/tmp/tmpd/tmpf''],
      Open ''/tmp/tmpd/tmpf.png'']"
proof -
  let ?st = "write_file ''/tmp/tmpd/tmpf'' (''{}'' @ [CHR 0x0A])
     [(''/tmp/tmpd'', Dir), (''/tmp/tmpd/tmpf'', File [])]"
  let ?p1 = "world_png\<lparr>trace := [Call [inkscape, ''--export-png'']],
      inkscape_available_flag := Some True\<rparr>"
  let ?p2 = "world_png\<lparr>trace := [Call [inkscape, ''--export-png'']],
      stderr := [''Exception OSError''], inkscape_available_flag := Some False\<rparr>"
  have a1: "inkscape_available env_distinct world_png = (Inr True, ?p1)"
    by (simp add: inkscape_available_def run_command_def subprocess_call_def env_distinct_def
        world_png_def setdiagpng_def world0_def init_world_def)
  have a2: "inkscape_available env_native world_png = (Inr False, ?p2)"
    by (simp add: inkscape_available_def run_command_def subprocess_call_def
        env_native_def world_png_def setdiagpng_def world0_def init_world_def)
  have m1: "tempfile_mkdtemp env_distinct (fs ?p1) = Inr (''/tmp/tmpd'', [(''/tmp/tmpd'', Dir)])"
    by (simp add: world_png_fields staged_example_more)
  have m2: "tempfile_mkdtemp env_native (fs ?p2) = Inr (''/tmp/tmpd'', [(''/tmp/tmpd'', Dir)])"
    by (simp add: world_png_fields staged_example_more)
  have f1: "''svg'' = (if True then ''svg'' else ''png'')"
    and f2: "''png'' = (if False then ''svg'' else ''png'')"
    by simp_all
  have t1: "spawn env_distinct
      [''blockdiag'', ''-T'', ''svg'', ''--size'', ''1000x500'', ''-o'',
       ''/tmp/tmpd/tmpf'' @ ''.'' @ ''svg'', ''/tmp/tmpd/tmpf''] ?st =
      (Exited 0, write_file ''/tmp/tmpd/tmpf.svg'' ''<svg/>'' ?st)"
    by (simp add: env_distinct_def inkscape_def)
  have t2: "spawn env_native
      [''blockdiag'', ''-T'', ''png'', ''--size'', ''1000x500'', ''-o'',
       ''/tmp/tmpd/tmpf'' @ ''.'' @ ''png'', ''/tmp/tmpd/tmpf''] ?st =
      (Exited 0, write_file ''/tmp/tmpd/tmpf.png'' ''PNG-native'' ?st)"
    by (simp add: env_native_def inkscape_def)
  have c1: "spawn env_distinct
      [inkscape, ''/tmp/tmpd/tmpf'' @ ''.svg'', ''--export-png='' @ ''/tmp/tmpd/tmpf'' @ ''.png'']
      (write_file ''/tmp/tmpd/tmpf.svg'' ''<svg/>'' ?st) =
      (Exited 0, write_file ''/tmp/tmpd/tmpf.png'' ''PNG-converted''
         (write_file ''/tmp/tmpd/tmpf.svg'' ''<svg/>'' ?st))"
    by (simp add: env_distinct_def)
  have c2: "spawn env_native
      [inkscape, ''/tmp/tmpd/tmpf'' @ ''.svg'', ''--export-png='' @ ''/tmp/tmpd/tmpf'' @ ''.png'']
      (write_file ''/tmp/tmpd/tmpf.png'' ''PNG-native'' ?st) =
      (Raised OSError, write_file ''/tmp/tmpd/tmpf.png'' ''PNG-native'' ?st)"
    by (simp add: env_native_def)
  from png_pipeline_order
      [OF world_png_fields(8,1) a1 m1 staged_example_more(2) f1 staged_example_more(5) t1 c1,
        of "[]"]
    png_pipeline_order
      [OF world_png_fields(8,1) a2 m2 staged_example_more(4) f2 staged_example_more(5) t2 c2,
        of "[]"]
  show ?thesis by simp
qed

text \<open>
  Claim C3 as stated says that every render call with publish format PNG and a probe
  that returns true invokes the converter and reads the \<^verbatim>\<open>.png\<close> artifact. With the
  converter installed and no dialect tool, the probe returns true, the launch of the
  dialect tool raises \<^verbatim>\<open>OSError\<close> out of the call, and the call invokes no converter
  and opens no file.
\<close>

theorem png_pipeline_order_counterexample:
  "fst (inkscape_available env_only_inkscape world_png) = Inr True \<and>
   fst (diag env_only_inkscape [] ''{}'' ''blockdiag'' world_png) = Inl OSError \<and>
   trace (snd (diag env_only_inkscape [] ''{}'' ''blockdiag'' world_png)) =
     [Call [inkscape, ''--export-png''], Mkdtemp ''/tmp/tmpd'',
      Call [''blockdiag'', ''-T'', ''svg'', ''--size'', ''1000x500'', ''-o'',
            ''/tmp/tmpd/tmpf.svg'', ''/tmp/tmpd/tmpf'']] \<and>
   opened (trace (snd (diag env_only_inkscape [] ''{}'' ''blockdiag'' world_png))) = []"
  by code_simp

subsection \<open>The temporary directory\<close>




subsection \<open>The published payload\<close>

text \<open>
  Claim C5. Each of the six dialect magics, in any environment. Suppose that the call
  gets as far as the dialect tool, that the tool runs, that the converter, when the
  call uses it, runs or cannot be launched, and that the artifact file named by the
  publish mode then holds the bytes \<open>b\<close>. Then what the call publishes is exactly \<open>b\<close>,
  under \<^verbatim>\<open>image/svg+xml\<close> when the publish mode is SVG and under \<^verbatim>\<open>image/png\<close> when it
  is PNG; and the call does publish when the temporary directory holds only regular
  files, so that the cleanup succeeds.
\<close>

theorem published_payload_is_artifact:
  assumes "(magic, cmd) \<in> set dialect_commands"
    and "diag_mode env w = (Inr (), w1)"
    and "tempfile_mkdtemp env (fs w1) = Inr (d, f1)"
    and "tempfile_mkstemp env d f1 = Inr (p, f2)"
    and "fmt = lower (draw_mode w1)"
    and "sz = str_int (fst (canvas_size w)) @ ''x'' @ str_int (snd (canvas_size w))"
    and "spawn env [cmd, ''-T'', fmt, ''--size'', sz, ''-o'', p @ ''.'' @ fmt, p]
           (write_file p (cell @ [CHR 0x0A]) f2) = (Exited rc, f4)"
    and "spawn env [inkscape, p @ ''.svg'', ''--export-png='' @ p @ ''.png''] f4 = (r2, f5)"
    and "converted = (draw_mode w1 = ''SVG'' \<and> publish_mode w = ''PNG'')"
    and "converted \<longrightarrow> ran_or_oserror r2"
    and "map_of (if converted then f5 else f4) (p @ ''.'' @ lower (publish_mode w)) =
           Some (File b)"
  shows "(tidy d (if converted then f5 else f4) \<longrightarrow> fst (magic env line cell w) = Inr ()) \<and>
     display (snd (magic env line cell w)) =
       (case fst (magic env line cell w) of
          Inl e \<Rightarrow> display w
        | Inr u \<Rightarrow>
            display w @
              [if publish_mode w = ''SVG''
               then (''IPython.core.displaypub.publish_svg'', [(''image/svg+xml'', b)])
               else (''IPython.core.displaypub.publish_png'', [(''image/png'', b)])])"
proof -
  from assms(1) have mg: "magic env line cell w = diag env line cell cmd w"
    by (auto simp: dialect_commands_def actdiag_def blockdiag_def nwdiag_def seqdiag_def
        rackdiag_def packetdiag_def)
  note fr = diag_mode_frame(1,2,5) [OF assms(2)]
  have A: "[cmd, ''-T'', fmt, ''--size'', sz, ''-o'', p @ ''.'' @ fmt, p] =
      [cmd, ''-T'', lower (draw_mode w1), ''--size'',
       str_int (fst (canvas_size w1)) @ ''x'' @ str_int (snd (canvas_size w1)),
       ''-o'', p @ ''.'' @ lower (draw_mode w1), p]"
    using assms(5,6) fr by simp
  let ?ff = "if converted then f5 else f4"
  from diag_try_staged [OF assms(3,4) A assms(7) refl assms(8)] obtain rt w2 where
    t: "diag_try env (cell @ [CHR 0x0A]) cmd w1 = (rt, Some d, w2)"
    and w2: "display w2 = display w" "publish_mode w2 = publish_mode w"
      "fs w2 = ?ff" "rt = io_open_read (p @ ''.'' @ lower (publish_mode w)) ?ff"
    using assms(9,10) fr by (auto simp: lower_modes split: if_splits)
  from w2(4) assms(11) have rt: "rt = Inr b"
    by (simp add: io_open_read_def)
  obtain e w3 where fin: "diag_finally (Some d) w2 = (e, w3)"
    by (cases "diag_finally (Some d) w2") auto
  then obtain f where w3: "w3 = w2\<lparr>fs := f\<rparr>"
    using diag_finally_frame by blast
  note run = diag_run [OF assms(2) t fin, of line]
  have "fst (diag env line cell cmd w) = Inr ()" if "tidy d ?ff"
    using diag_after_try_tidy(1) [OF assms(2) t, of line] that w2(3) rt by simp
  moreover have "display (snd (diag env line cell cmd w)) =
       (case fst (diag env line cell cmd w) of
          Inl e \<Rightarrow> display w
        | Inr u \<Rightarrow>
            display w @
              [if publish_mode w = ''SVG''
               then (''IPython.core.displaypub.publish_svg'', [(''image/svg+xml'', b)])
               else (''IPython.core.displaypub.publish_png'', [(''image/png'', b)])])"
    using w2(1,2) by (simp add: run rt w3 publish_display_data_def split: option.splits)
  ultimately show ?thesis
    by (simp add: mg)
qed

theorem published_payload_is_artifact_witness:
  "fst (blockdiag env_distinct [] ''{}'' world0) = Inr () \<and>
   display (snd (blockdiag env_distinct [] ''{}'' world0)) =
     [(''IPython.core.displaypub.publish_svg'', [(''image/svg+xml'', ''<svg/>'')])] \<and>
   fst (seqdiag env_distinct [] ''{}'' world_png) = Inr () \<and>
   display (snd (seqdiag env_distinct [] ''{}'' world_png)) =
     [(''IPython.core.displaypub.publish_png'', [(''image/png'', ''PNG-converted'')])] \<and>
   fst (packetdiag env_native [] ''{}'' world_png) = Inr () \<and>
   display (snd (packetdiag env_native [] ''{}'' world_png)) =
     [(''IPython.core.displaypub.publish_png'', [(''image/png'', ''PNG-native'')])]"
proof -
  let ?st = "write_file ''/tmp/tmpd/tmpf'' (''{}'' @ [CHR 0x0A])
     [(''/tmp/tmpd'', Dir), (''/tmp/tmpd/tmpf'', File [])]"
  let ?p1 = "world_png\<lparr>trace := [Call [inkscape, ''--export-png'']],
      inkscape_available_flag := Some True, draw_mode := ''SVG''\<rparr>"
  let ?p2 = "world_png\<lparr>trace := [Call [inkscape, ''--export-png'']],
      stderr := [''Exception OSError''], inkscape_available_flag := Some False\<rparr>"
  let ?svg = "write_file ''/tmp/tmpd/tmpf.svg'' ''<svg/>'' ?st"
  let ?cnv = "write_file ''/tmp/tmpd/tmpf.png'' ''PNG-converted'' ?svg"
  let ?png = "write_file ''/tmp/tmpd/tmpf.png'' ''PNG-native'' ?st"
  have mem: "(blockdiag, ''blockdiag'') \<in> set dialect_commands"
    "(seqdiag, ''seqdiag'') \<in> set dialect_commands"
    "(packetdiag, ''packetdiag'') \<in> set dialect_commands"
    by (simp_all add: dialect_commands_def)
  note d0 = diag_mode_svg [OF world0_modes(1), of env_distinct]
  have d1: "diag_mode env_distinct world_png = (Inr (), ?p1)"
    by (simp add: diag_mode_def inkscape_available_def run_command_def subprocess_call_def
        env_distinct_def world_png_def setdiagpng_def world0_def init_world_def)
  have d2: "diag_mode env_native world_png = (Inr (), ?p2)"
    by (simp add: diag_mode_def inkscape_available_def run_command_def subprocess_call_def
        env_native_def world_png_def setdiagpng_def world0_def init_world_def)
  have m0: "tempfile_mkdtemp env_distinct (fs world0) =
      Inr (''/tmp/tmpd'', [(''/tmp/tmpd'', Dir)])"
    by (simp add: world0_modes staged_example_more)
  have m1: "tempfile_mkdtemp env_distinct (fs ?p1) = Inr (''/tmp/tmpd'', [(''/tmp/tmpd'', Dir)])"
    by (simp add: world_png_fields staged_example_more)
  have m2: "tempfile_mkdtemp env_native (fs ?p2) = Inr (''/tmp/tmpd'', [(''/tmp/tmpd'', Dir)])"
    by (simp add: world_png_fields staged_example_more)
  have f0: "''svg'' = lower (draw_mode world0)"
    and f1: "''svg'' = lower (draw_mode ?p1)"
    and f2: "''png'' = lower (draw_mode ?p2)"
    by (simp_all add: world0_modes world_png_fields lower_modes)
  have t0: "spawn env_distinct
      [''blockdiag'', ''-T'', ''svg'', ''--size'', ''1000x500'', ''-o'',
       ''/tmp/tmpd/tmpf'' @ ''.'' @ ''svg'', ''/tmp/tmpd/tmpf''] ?st = (Exited 0, ?svg)"
    by (simp add: env_distinct_def inkscape_def)
  have t1: "spawn env_distinct
      [''seqdiag'', ''-T'', ''svg'', ''--size'', ''1000x500'', ''-o'',
       ''/tmp/tmpd/tmpf'' @ ''.'' @ ''svg'', ''/tmp/tmpd/tmpf''] ?st = (Exited 0, ?svg)"
    by (simp add: env_distinct_def inkscape_def)
  have t2: "spawn env_native
      [''packetdiag'', ''-T'', ''png'', ''--size'', ''1000x500'', ''-o'',
       ''/tmp/tmpd/tmpf'' @ ''.'' @ ''png'', ''/tmp/tmpd/tmpf''] ?st = (Exited 0, ?png)"
    by (simp add: env_native_def inkscape_def)
  have c1: "spawn env_distinct
      [inkscape, ''/tmp/tmpd/tmpf'' @ ''.svg'', ''--export-png='' @ ''/tmp/tmpd/tmpf'' @ ''.png'']
      ?svg = (Exited 0, ?cnv)"
    by (simp add: env_distinct_def)
  have c2: "spawn env_native
      [inkscape, ''/tmp/tmpd/tmpf'' @ ''.svg'', ''--export-png='' @ ''/tmp/tmpd/tmpf'' @ ''.png'']
      ?png = (Raised OSError, ?png)"
    by (simp add: env_native_def)
  have v0: "False = (draw_mode world0 = ''SVG'' \<and> publish_mode world0 = ''PNG'')"
    and v1: "True = (draw_mode ?p1 = ''SVG'' \<and> publish_mode world_png = ''PNG'')"
    and v2: "False = (draw_mode ?p2 = ''SVG'' \<and> publish_mode world_png = ''PNG'')"
    by (simp_all add: world0_modes world_png_fields)
  have r0: "False \<longrightarrow> ran_or_oserror (Exited 0)"
    and r1: "True \<longrightarrow> ran_or_oserror (Exited 0)"
    and r2: "False \<longrightarrow> ran_or_oserror (Raised OSError)"
    by simp_all
  have b0: "map_of (if False then ?cnv else ?svg)
      (''/tmp/tmpd/tmpf'' @ ''.'' @ lower (publish_mode world0)) = Some (File ''<svg/>'')"
    and b1: "map_of (if True then ?cnv else ?svg)
      (''/tmp/tmpd/tmpf'' @ ''.'' @ lower (publish_mode world_png)) =
      Some (File ''PNG-converted'')"
    and b2: "map_of (if False then ?png else ?png)
      (''/tmp/tmpd/tmpf'' @ ''.'' @ lower (publish_mode world_png)) =
      Some (File ''PNG-native'')"
    by code_simp+
  have y0: "tidy ''/tmp/tmpd'' (if False then ?cnv else ?svg)"
    and y1: "tidy ''/tmp/tmpd'' (if True then ?cnv else ?svg)"
    and y2: "tidy ''/tmp/tmpd'' (if False then ?png else ?png)"
    by code_simp+
  from published_payload_is_artifact
      [OF mem(1) d0 m0 staged_example_more(2) f0 staged_example_more(6) t0 c1 v0 r0 b0, of "[]"]
    published_payload_is_artifact
      [OF mem(2) d1 m1 staged_example_more(2) f1 staged_example_more(5) t1 c1 v1 r1 b1, of "[]"]
    published_payload_is_artifact
      [OF mem(3) d2 m2 staged_example_more(4) f2 staged_example_more(5) t2 c2 v2 r2 b2, of "[]"]
    y0 y1 y2 world0_modes world_png_fields
  show ?thesis by simp
qed

subsection \<open>The extension hook\<close>

lemma exec_magic_registry:
  "loaded (snd (exec_magic env m w)) = (loaded w \<or> m = Load_ext)"
  "ip_registry (snd (exec_magic env m w)) =
     (if m = Load_ext \<and> \<not> loaded w then ip_registry w @ [''BlockdiagMagics'']
      else ip_registry w)"
proof -
  have d: "loaded (snd (diag env l c cmd w)) = loaded w"
    "ip_registry (snd (diag env l c cmd w)) = ip_registry w" for l c cmd
    using diag_frame(3,4) [of env l c cmd w "fst (diag env l c cmd w)"
        "snd (diag env l c cmd w)"]
    by simp_all
  have s: "loaded (snd (setdiagsize l w)) = loaded w"
    "ip_registry (snd (setdiagsize l w)) = ip_registry w" for l
    by (simp_all add: setdiagsize_def split: sum.splits)
  show "loaded (snd (exec_magic env m w)) = (loaded w \<or> m = Load_ext)"
    by (cases m)
       (simp_all add: actdiag_def blockdiag_def nwdiag_def seqdiag_def rackdiag_def
         packetdiag_def d s setdiagsvg_def setdiagpng_def load_ipython_extension_def
         register_magics_def)
  show "ip_registry (snd (exec_magic env m w)) =
     (if m = Load_ext \<and> \<not> loaded w then ip_registry w @ [''BlockdiagMagics'']
      else ip_registry w)"
    by (cases m)
       (simp_all add: actdiag_def blockdiag_def nwdiag_def seqdiag_def rackdiag_def
         packetdiag_def d s setdiagsvg_def setdiagpng_def load_ipython_extension_def
         register_magics_def)
qed

lemma run_session_registry:
  "ip_registry (run_session env ms w) =
     (if Load_ext \<in> set ms \<and> \<not> loaded w then ip_registry w @ [''BlockdiagMagics'']
      else ip_registry w)"
proof (induction ms arbitrary: w)
  case Nil
  then show ?case by simp
next
  case (Cons m ms)
  show ?case
    by (auto simp: Cons.IH exec_magic_registry load_ipython_extension_def
        register_magics_def)
qed

text \<open>
  Claim C8. Calling \<^verbatim>\<open>load_ipython_extension\<close> twice registers the magics once: the
  first call on a fresh module registers them and sets the flag, and a call after
  another call changes nothing. Over a whole session, whatever else runs in between,
  the registry holds one entry when the hook was called at all and none otherwise.
\<close>

theorem load_ipython_extension_once:
  "load_ipython_extension (load_ipython_extension w) = load_ipython_extension w \<and>
   ip_registry (load_ipython_extension (init_world f a)) = [''BlockdiagMagics''] \<and>
   loaded (load_ipython_extension (init_world f a)) \<and>
   ip_registry (load_ipython_extension (load_ipython_extension (init_world f a))) =
     [''BlockdiagMagics''] \<and>
   ip_registry (run_session env ms (init_world f a)) =
     (if Load_ext \<in> set ms then [''BlockdiagMagics''] else [])"
  by (simp add: run_session_registry)
     (simp add: load_ipython_extension_def register_magics_def init_world_def)

end
